theory Spec2Isabelle
  imports Main "HOL-Library.Finite_Map"
begin

section \<open>JavaScript values\<close>

text \<open>
  The chat widget is JavaScript. Values that cross the interfaces of
  \<^verbatim>\<open>ChatContainer.js\<close> and of the \<^verbatim>\<open>ChatInterface\<close> class are
  JSON-like: a plain object is a finite map from property names to values (the order of
  the keys is not modelled), numbers are restricted to integers.
\<close>

datatype jsval =
    JUndefined
  | JNull
  | JBool bool
  | JNum int
  | JStr string
  | JArr "jsval list"
  | JObj "(string, jsval) fmap"

type_synonym props = "(string, jsval) fmap"

text \<open>What \<^verbatim>\<open>if (v)\<close>, \<^verbatim>\<open>v && w\<close> and \<^verbatim>\<open>v || w\<close> test.\<close>

fun truthy :: "jsval \<Rightarrow> bool" where
  "truthy JUndefined = False"
| "truthy JNull = False"
| "truthy (JBool b) = b"
| "truthy (JNum n) = (n \<noteq> 0)"
| "truthy (JStr s) = (s \<noteq> [])"
| "truthy (JArr xs) = True"
| "truthy (JObj m) = True"

definition js_or :: "jsval \<Rightarrow> jsval \<Rightarrow> jsval" where
  "js_or a b = (if truthy a then a else b)"

text \<open>
  What the code can throw or reject with: the two built-in errors it can provoke, and the
  opaque reason of a rejected promise of a collaborator.
\<close>

datatype js_error = TypeError | SyntaxError | Reason jsval

fun nullish :: "jsval \<Rightarrow> bool" where
  "nullish JUndefined = True"
| "nullish JNull = True"
| "nullish v = False"

text \<open>
  \<^verbatim>\<open>v.k\<close> on a value that is neither \<^verbatim>\<open>null\<close> nor \<^verbatim>\<open>undefined\<close>. Only own
  properties of plain objects are modelled; the property names the code reads
  (\<^verbatim>\<open>chatDetails\<close>, \<^verbatim>\<open>startChatResult\<close>, \<^verbatim>\<open>ContactId\<close>, ...) are not built-in
  properties of strings, numbers, booleans or arrays, where the read gives
  \<^verbatim>\<open>undefined\<close>.
\<close>

fun prop_of :: "jsval \<Rightarrow> string \<Rightarrow> jsval" where
  "prop_of (JObj m) k = (case fmlookup m k of Some v \<Rightarrow> v | None \<Rightarrow> JUndefined)"
| "prop_of v k = JUndefined"

text \<open>\<^verbatim>\<open>v.k\<close> in general: a TypeError on \<^verbatim>\<open>null\<close> and \<^verbatim>\<open>undefined\<close>.\<close>

definition get_prop :: "jsval \<Rightarrow> string \<Rightarrow> js_error + jsval" where
  "get_prop v k = (if nullish v then Inl TypeError else Inr (prop_of v k))"

text \<open>\<^verbatim>\<open>input.k\<close> on a configuration object.\<close>

definition field :: "props \<Rightarrow> string \<Rightarrow> jsval" where
  "field input k = prop_of (JObj input) k"

section \<open>The component, the two browser stores and the observable effects\<close>

datatype chat_status = NotInitiated | Initiating | Initiated | InitiateFailed

datatype store = LocalStore | SessionStore

text \<open>
  \<^verbatim>\<open>new ChatSession(chatDetails, name, region, stage, customizationParams)\<close>: the
  class lives in \<^verbatim>\<open>ChatSession.js\<close>; a session is identified by the arguments it
  was constructed from.
\<close>

record chat_session =
  cs_chatDetails :: jsval
  cs_displayName :: jsval
  cs_region :: jsval
  cs_stage :: jsval
  cs_customizationParams :: jsval

text \<open>
  A continuation handed in by the host: \<open>None\<close> is \<^verbatim>\<open>undefined\<close>, \<open>Some i\<close> is
  the function with identity \<open>i\<close>.
\<close>

type_synonym callback = "nat option"

text \<open>The effects of a call, in the order in which they happen.\<close>

datatype event =
    StatusSet chat_status
  | ItemRemoved store string
  | ItemSet store string string
  | LoggerInfo
  | LoggerError
  | InitiatorCalled props
  | OpenCalled chat_session
  | CurrentInstanceSet chat_session
  | CallbackCalled nat "js_error + chat_session"
  | TriggerInitChat props callback callback
  | TriggerRehydrateChat props jsval callback callback

type_synonym storage = "string \<rightharpoonup> string"

text \<open>
  \<^verbatim>\<open>this.state\<close> of the \<^verbatim>\<open>ChatContainer\<close>, whether the constructor found
  \<^verbatim>\<open>window.connect.LogManager\<close> and so set \<^verbatim>\<open>this.logger\<close>, the contents of
  \<^verbatim>\<open>localStorage\<close> and \<^verbatim>\<open>sessionStorage\<close>, and the effects so far.
  \<^verbatim>\<open>setState\<close> is taken to update the state at once.
\<close>

record container =
  status :: chat_status
  chatSession :: "chat_session option"
  composerConfig :: jsval
  language :: jsval
  logger :: bool
  localStorage :: storage
  sessionStorage :: storage
  trace :: "event list"

text \<open>The state the constructor leaves, on empty stores.\<close>

definition constructed :: "bool \<Rightarrow> container" where
  "constructed has_logger =
     \<lparr>status = NotInitiated, chatSession = None, composerConfig = JObj fmempty,
      language = JStr ''en_US'', logger = has_logger,
      localStorage = Map.empty, sessionStorage = Map.empty, trace = []\<rparr>"

datatype outcome = Completed | Raised js_error

definition emit :: "event \<Rightarrow> container \<Rightarrow> container" where
  "emit e s = s\<lparr>trace := trace s @ [e]\<rparr>"

definition getItem :: "store \<Rightarrow> string \<Rightarrow> container \<Rightarrow> string option" where
  "getItem st k s = (case st of LocalStore \<Rightarrow> localStorage s k | SessionStore \<Rightarrow> sessionStorage s k)"

definition removeItem :: "store \<Rightarrow> string \<Rightarrow> container \<Rightarrow> container" where
  "removeItem st k s =
     emit (ItemRemoved st k)
       (case st of
          LocalStore \<Rightarrow> s\<lparr>localStorage := (localStorage s)(k := None)\<rparr>
        | SessionStore \<Rightarrow> s\<lparr>sessionStorage := (sessionStorage s)(k := None)\<rparr>)"

definition setItem :: "store \<Rightarrow> string \<Rightarrow> string \<Rightarrow> container \<Rightarrow> container" where
  "setItem st k v s =
     emit (ItemSet st k v)
       (case st of
          LocalStore \<Rightarrow> s\<lparr>localStorage := (localStorage s)(k \<mapsto> v)\<rparr>
        | SessionStore \<Rightarrow> s\<lparr>sessionStorage := (sessionStorage s)(k \<mapsto> v)\<rparr>)"

text \<open>\<^verbatim>\<open>this.setState({ status: st })\<close>.\<close>

definition setStatus :: "chat_status \<Rightarrow> container \<Rightarrow> container" where
  "setStatus st s = emit (StatusSet st) (s\<lparr>status := st\<rparr>)"

text \<open>
  \<^verbatim>\<open>this.logger.info(...)\<close> and \<^verbatim>\<open>this.logger.error(...)\<close> without a guard: a
  TypeError when the constructor set no logger.
\<close>

definition logger_call :: "event \<Rightarrow> container \<Rightarrow> js_error + container" where
  "logger_call e s = (if logger s then Inr (emit e s) else Inl TypeError)"

text \<open>\<^verbatim>\<open>this.logger && this.logger.info(...)\<close>.\<close>

definition logger_guarded :: "event \<Rightarrow> container \<Rightarrow> container" where
  "logger_guarded e s = (if logger s then emit e s else s)"

text \<open>The fixed key of the session record.\<close>

definition chatSessionData :: string where
  "chatSessionData = ''chatSessionData''"

section \<open>resetState\<close>

definition resetState :: "container \<Rightarrow> container" where
  "resetState s =
     (let s1 = removeItem LocalStore chatSessionData s;
          s2 = removeItem SessionStore chatSessionData s1;
          s3 = emit (StatusSet NotInitiated) (s2\<lparr>status := NotInitiated, chatSession := None\<rparr>)
      in logger_guarded LoggerInfo s3)"

section \<open>The platform and the collaborators\<close>

text \<open>What \<^verbatim>\<open>window[name]\<close> can be, as far as the code uses it.\<close>

datatype window_value =
    WLocalStorage
  | WSessionStorage
  | WOther
  | WFalsy

text \<open>
  The parts of the page that are not code of \<^verbatim>\<open>ChatContainer.js\<close> or of the
  \<^verbatim>\<open>ChatInterface\<close> class, taken as parameters:
  \<^item> \<open>json_parse\<close> is \<^verbatim>\<open>JSON.parse\<close> (\<open>None\<close>: it throws a SyntaxError),
    \<open>json_stringify\<close> is \<^verbatim>\<open>JSON.stringify\<close>;
  \<^item> \<open>initiateChat\<close> is the Session Initiator of \<^verbatim>\<open>ChatInitiator.js\<close>: how the
    promise it returns for a configuration settles (\<open>Inl\<close>: rejected);
  \<^item> \<open>openResult\<close> is how the promise of \<^verbatim>\<open>chatSession.openChatSession()\<close>
    settles for a session (\<open>Some e\<close>: rejected with \<open>e\<close>);
  \<^item> \<open>toPropertyKey\<close> is the string a number, array or object is converted to when
    it is used as a property name;
  \<^item> \<open>windowOther\<close> says whether \<^verbatim>\<open>window[name]\<close> is a truthy value for a name
    other than the two stores (such as \<^verbatim>\<open>document\<close>); such a value is not a Storage
    and has neither \<^verbatim>\<open>getItem\<close> nor \<^verbatim>\<open>setItem\<close>;
  \<^item> \<open>ATTACHMENTS\<close> and \<open>TEXT_MARKDOWN\<close> are the constants
    \<^verbatim>\<open>CHAT_FEATURE_TYPES.ATTACHMENTS\<close> of \<^verbatim>\<open>constants.js\<close> and
    \<^verbatim>\<open>ContentType.MESSAGE_CONTENT_TYPE.TEXT_MARKDOWN\<close> of \<^verbatim>\<open>datamodel/Model.js\<close>.
  The two asynchronous calls are run to completion inside the call that awaits them: other
  events of the page between the start of a call and its end are not modelled.
  \<^verbatim>\<open>setItem\<close> is taken to succeed (no quota), the constructor of
  \<^verbatim>\<open>ChatSession\<close> and the continuations of the host are taken not to throw.
\<close>

record env =
  json_parse :: "string \<Rightarrow> jsval option"
  json_stringify :: "jsval \<Rightarrow> string"
  initiateChat :: "props \<Rightarrow> js_error + jsval"
  openResult :: "chat_session \<Rightarrow> js_error option"
  toPropertyKey :: "jsval \<Rightarrow> string"
  windowOther :: "string \<Rightarrow> bool"
  ATTACHMENTS :: string
  TEXT_MARKDOWN :: string

text \<open>The property name \<^verbatim>\<open>window[v]\<close> reads.\<close>

fun property_key :: "env \<Rightarrow> jsval \<Rightarrow> string" where
  "property_key E (JStr s) = s"
| "property_key E JUndefined = ''undefined''"
| "property_key E JNull = ''null''"
| "property_key E (JBool b) = (if b then ''true'' else ''false'')"
| "property_key E v = toPropertyKey E v"

definition window_lookup :: "env \<Rightarrow> jsval \<Rightarrow> window_value" where
  "window_lookup E v =
     (let name = property_key E v in
      if name = ''localStorage'' then WLocalStorage
      else if name = ''sessionStorage'' then WSessionStorage
      else if name = ''undefined'' then WFalsy
      else if windowOther E name then WOther
      else WFalsy)"

text \<open>\<^verbatim>\<open>s.split(",")\<close>: the pieces between the separators; one empty piece for the empty string.\<close>

fun split_on :: "char \<Rightarrow> string \<Rightarrow> string list" where
  "split_on c [] = [[]]"
| "split_on c (x # xs) =
     (if x = c then [] # split_on c xs
      else (case split_on c xs of
              [] \<Rightarrow> [[x]]
            | w # ws \<Rightarrow> (x # w) # ws))"

section \<open>ChatContainer: the composer configuration\<close>

text \<open>
  \<^verbatim>\<open>(input.featurePermissions && input.featurePermissions[ATTACHMENTS]) ||
  (chatDetails.featurePermissions && chatDetails.featurePermissions[ATTACHMENTS])\<close>:
  the right operand is read only when the left one is falsy, and reading it throws when
  \<^verbatim>\<open>chatDetails\<close> is null or undefined.
\<close>

definition attachmentsEnabled :: "env \<Rightarrow> props \<Rightarrow> jsval \<Rightarrow> js_error + jsval" where
  "attachmentsEnabled E input chatDetails =
     (let fp = field input ''featurePermissions'';
          a = (if truthy fp then prop_of fp (ATTACHMENTS E) else fp)
      in if truthy a then Inr a
         else (case get_prop chatDetails ''featurePermissions'' of
                 Inl e \<Rightarrow> Inl e
               | Inr cfp \<Rightarrow> Inr (if truthy cfp then prop_of cfp (ATTACHMENTS E) else cfp)))"

text \<open>
  \<^verbatim>\<open>typeof input.supportedMessagingContentTypes === "string" ?
  input.supportedMessagingContentTypes.split(",").includes(TEXT_MARKDOWN) : false\<close>
\<close>

definition richMessagingEnabled :: "env \<Rightarrow> props \<Rightarrow> bool" where
  "richMessagingEnabled E input =
     (case field input ''supportedMessagingContentTypes'' of
        JStr s \<Rightarrow> TEXT_MARKDOWN E \<in> set (split_on (CHR '','') s)
      | _ \<Rightarrow> False)"

definition make_composerConfig :: "jsval \<Rightarrow> bool \<Rightarrow> jsval" where
  "make_composerConfig att rich =
     JObj (fmap_of_list [(''attachmentsEnabled'', att), (''richMessagingEnabled'', JBool rich)])"

section \<open>ChatContainer.openChatSession\<close>

definition new_ChatSession :: "jsval \<Rightarrow> jsval \<Rightarrow> jsval \<Rightarrow> jsval \<Rightarrow> jsval \<Rightarrow> chat_session" where
  "new_ChatSession chatDetails name region stage customizationParams =
     \<lparr>cs_chatDetails = chatDetails, cs_displayName = name, cs_region = region,
      cs_stage = stage, cs_customizationParams = customizationParams\<rparr>"

text \<open>
  The session is constructed, the close handler registered, and the connection opened;
  the result is the session when the open call resolves and its error when it is rejected.
\<close>

definition openChatSession ::
  "env \<Rightarrow> jsval \<Rightarrow> jsval \<Rightarrow> jsval \<Rightarrow> jsval \<Rightarrow> jsval \<Rightarrow> container
     \<Rightarrow> (js_error + chat_session) \<times> container" where
  "openChatSession E chatDetails name region stage customizationParams s =
     (case get_prop chatDetails ''startChatResult'' of
        Inl e \<Rightarrow> (Inl e, s)
      | Inr r \<Rightarrow>
          (let finalChatDetails =
                 (if truthy r then chatDetails
                  else JObj (fmap_of_list [(''startChatResult'', chatDetails)]));
               session = new_ChatSession finalChatDetails name region stage customizationParams;
               s1 = emit (OpenCalled session) s
           in (case openResult E session of
                 Some e \<Rightarrow> (Inl e, s1)
               | None \<Rightarrow> (Inr session, s1))))"

section \<open>ChatContainer.saveChatSession\<close>

definition session_record :: "env \<Rightarrow> props \<Rightarrow> jsval \<Rightarrow> jsval \<Rightarrow> jsval \<Rightarrow> jsval" where
  "session_record E input chatDetails customizationParams att =
     JObj (fmap_of_list
       [(''chatDetails'', chatDetails),
        (''displayName'', field input ''name''),
        (''region'', field input ''region''),
        (''stage'', field input ''stage''),
        (''customizationParams'', customizationParams),
        (''language'', field input ''language''),
        (''composerConfig'', make_composerConfig att (richMessagingEnabled E input))])"

definition saveChatSession ::
  "env \<Rightarrow> props \<Rightarrow> jsval \<Rightarrow> jsval \<Rightarrow> container \<Rightarrow> outcome \<times> container" where
  "saveChatSession E input chatDetails customizationParams s =
     (let storage = window_lookup E (field input ''chatPersistence'');
          s1 = removeItem LocalStore chatSessionData s;
          s2 = removeItem SessionStore chatSessionData s1
      in case storage of
           WFalsy \<Rightarrow>
             (Completed,
              removeItem SessionStore chatSessionData (removeItem LocalStore chatSessionData s2))
         | _ \<Rightarrow>
             (case attachmentsEnabled E input chatDetails of
                Inl e \<Rightarrow> (Raised e, s2)
              | Inr att \<Rightarrow>
                  (let text = json_stringify E
                                (session_record E input chatDetails customizationParams att)
                   in case storage of
                        WLocalStorage \<Rightarrow> (Completed, setItem LocalStore chatSessionData text s2)
                      | WSessionStorage \<Rightarrow> (Completed, setItem SessionStore chatSessionData text s2)
                      | _ \<Rightarrow> (Raised TypeError, s2))))"

section \<open>ChatContainer.submitChatInitiation\<close>

definition make_customizationParams :: "props \<Rightarrow> jsval" where
  "make_customizationParams input =
     JObj (fmap_of_list
       [(''authenticationRedirectUri'',
           js_or (field input ''authenticationRedirectUri'') (JStr '''')),
        (''authenticationIdentityProvider'',
           js_or (field input ''authenticationIdentityProvider'') (JStr ''''))])"

text \<open>\<^verbatim>\<open>cb && cb(arg)\<close>.\<close>

definition call_back :: "callback \<Rightarrow> js_error + chat_session \<Rightarrow> container \<Rightarrow> container" where
  "call_back cb arg s = (case cb of None \<Rightarrow> s | Some i \<Rightarrow> emit (CallbackCalled i arg) s)"

text \<open>The body of the \<^verbatim>\<open>try\<close> block: \<open>Inl e\<close> when it throws \<open>e\<close>.\<close>

definition submit_try ::
  "env \<Rightarrow> props \<Rightarrow> callback \<Rightarrow> jsval \<Rightarrow> container \<Rightarrow> (js_error + unit) \<times> container" where
  "submit_try E input success customizationParams s =
     (let s1 = emit (InitiatorCalled input) s in
      case initiateChat E input of
        Inl e \<Rightarrow> (Inl e, s1)
      | Inr chatDetails \<Rightarrow>
          (case logger_call LoggerInfo s1 of
             Inl e \<Rightarrow> (Inl e, s1)
           | Inr s2 \<Rightarrow>
               (case openChatSession E chatDetails (field input ''name'') (field input ''region'')
                       (field input ''stage'') customizationParams s2 of
                  (Inl e, s3) \<Rightarrow> (Inl e, s3)
                | (Inr session, s3) \<Rightarrow>
                    (case saveChatSession E input chatDetails customizationParams s3 of
                       (Raised e, s4) \<Rightarrow> (Inl e, s4)
                     | (Completed, s4) \<Rightarrow>
                         (let s5 = emit (CurrentInstanceSet session) s4 in
                          case attachmentsEnabled E input chatDetails of
                            Inl e \<Rightarrow> (Inl e, s5)
                          | Inr att \<Rightarrow>
                              (let s6 = emit (StatusSet Initiated)
                                     (s5\<lparr>status := Initiated,
                                         chatSession := Some session,
                                         composerConfig :=
                                           make_composerConfig att (richMessagingEnabled E input),
                                         language :=
                                           js_or (field input ''language'') (JStr ''en_US'')\<rparr>)
                               in (Inr (), call_back success (Inr session) s6)))))))"

definition submitChatInitiation ::
  "env \<Rightarrow> props \<Rightarrow> callback \<Rightarrow> callback \<Rightarrow> container \<Rightarrow> outcome \<times> container" where
  "submitChatInitiation E input success failure s =
     (let s1 = setStatus Initiating s;
          customizationParams = make_customizationParams input
      in case submit_try E input success customizationParams s1 of
           (Inr u, s2) \<Rightarrow> (Completed, s2)
         | (Inl error, s2) \<Rightarrow>
             (Completed, call_back failure (Inl error) (setStatus InitiateFailed s2)))"

text \<open>The handler of the \<^verbatim>\<open>initChat\<close> event: it logs when there is a logger.\<close>

definition initiateChatSession ::
  "env \<Rightarrow> props \<Rightarrow> callback \<Rightarrow> callback \<Rightarrow> container \<Rightarrow> outcome \<times> container" where
  "initiateChatSession E chatDetails success failure s =
     submitChatInitiation E chatDetails success failure (logger_guarded LoggerInfo s)"

section \<open>ChatContainer.checkAndRehydrateChat\<close>

text \<open>\<^verbatim>\<open>a || b\<close> on the results of \<^verbatim>\<open>getItem\<close>: null and the empty string are falsy.\<close>

definition item_or :: "string option \<Rightarrow> string option \<Rightarrow> string option" where
  "item_or a b = (case a of None \<Rightarrow> b | Some t \<Rightarrow> if t = [] then b else a)"

text \<open>
  \<^verbatim>\<open>localStorage.getItem('chatSessionData') || sessionStorage.getItem('chatSessionData')
  || null\<close>
\<close>

definition read_chatSessionData :: "container \<Rightarrow> string option" where
  "read_chatSessionData s =
     item_or (item_or (getItem LocalStore chatSessionData s)
                      (getItem SessionStore chatSessionData s)) None"

text \<open>
  \<^verbatim>\<open>chatDetails && chatDetails.startChatResult && chatDetails.startChatResult.ContactId
  && chatDetails.startChatResult.ParticipantId\<close>: each read is made only on a truthy value,
  so none of them throws.
\<close>

definition valid_chatDetails :: "jsval \<Rightarrow> bool" where
  "valid_chatDetails chatDetails =
     (truthy chatDetails \<and>
      truthy (prop_of chatDetails ''startChatResult'') \<and>
      truthy (prop_of (prop_of chatDetails ''startChatResult'') ''ContactId'') \<and>
      truthy (prop_of (prop_of chatDetails ''startChatResult'') ''ParticipantId''))"

text \<open>
  The body of the \<^verbatim>\<open>try\<close> block: \<open>Inl e\<close> when it throws \<open>e\<close>, \<open>Inr True\<close> when it
  returns from the function, \<open>Inr False\<close> when control leaves the block at its end. The
  open call is awaited inside the block, so its rejection is thrown there.
\<close>

definition rehydrate_try ::
  "env \<Rightarrow> string \<Rightarrow> container \<Rightarrow> (js_error + bool) \<times> container" where
  "rehydrate_try E text s =
     (case json_parse E text of
        None \<Rightarrow> (Inl SyntaxError, s)
      | Some parsedData \<Rightarrow>
          (case get_prop parsedData ''chatDetails'' of
             Inl e \<Rightarrow> (Inl e, s)
           | Inr chatDetails \<Rightarrow>
               if valid_chatDetails chatDetails then
                 (case logger_call LoggerInfo s of
                    Inl e \<Rightarrow> (Inl e, s)
                  | Inr s1 \<Rightarrow>
                      (case logger_call LoggerInfo s1 of
                         Inl e \<Rightarrow> (Inl e, s1)
                       | Inr s2 \<Rightarrow>
                           (case openChatSession E chatDetails
                                   (prop_of parsedData ''displayName'')
                                   (prop_of parsedData ''region'')
                                   (prop_of parsedData ''stage'')
                                   (prop_of parsedData ''customizationParams'') s2 of
                              (Inl e, s3) \<Rightarrow> (Inl e, s3)
                            | (Inr session, s3) \<Rightarrow>
                                (Inr True,
                                 emit (StatusSet Initiated)
                                   (s3\<lparr>status := Initiated,
                                       chatSession := Some session,
                                       composerConfig := prop_of parsedData ''composerConfig'',
                                       language := prop_of parsedData ''language''\<rparr>)))))
               else (Inr False, s)))"

definition checkAndRehydrateChat :: "env \<Rightarrow> container \<Rightarrow> outcome \<times> container" where
  "checkAndRehydrateChat E s =
     (case read_chatSessionData s of
        None \<Rightarrow> (Completed, setStatus NotInitiated s)
      | Some text \<Rightarrow>
          if text = [] then (Completed, setStatus NotInitiated s)
          else
            (case rehydrate_try E text s of
               (Inr returned, s1) \<Rightarrow>
                 if returned then (Completed, s1)
                 else (Completed, setStatus NotInitiated s1)
             | (Inl error, s1) \<Rightarrow>
                 (case logger_call LoggerError s1 of
                    Inl e \<Rightarrow> (Raised e, s1)
                  | Inr s2 \<Rightarrow>
                      (Completed,
                       setStatus NotInitiated
                         (removeItem SessionStore chatSessionData
                            (removeItem LocalStore chatSessionData s2))))))"

text \<open>The listener of the \<^verbatim>\<open>storage\<close> event; \<open>key\<close> is \<^verbatim>\<open>event.key\<close>.\<close>

definition onStorageChange :: "env \<Rightarrow> string option \<Rightarrow> container \<Rightarrow> outcome \<times> container" where
  "onStorageChange E key s =
     (if key = Some chatSessionData then
        (case logger_call LoggerInfo s of
           Inl e \<Rightarrow> (Raised e, s)
         | Inr s1 \<Rightarrow> checkAndRehydrateChat E s1)
      else (Completed, s))"

section \<open>ChatInterface\<close>

definition clientConfig :: props where
  "clientConfig =
     fmap_of_list
       [(''contactFlowId'', JStr ''''),
        (''instanceId'', JStr ''''),
        (''region'', JStr ''''),
        (''stage'', JStr ''prod''),
        (''contactAttributes'', JObj fmempty),
        (''featurePermissions'', JObj fmempty)]"

text \<open>
  \<^verbatim>\<open>JSON.parse(storage.getItem("chatSessionData"))\<close>: a missing item is
  \<^verbatim>\<open>null\<close>, which \<^verbatim>\<open>JSON.parse\<close> converts to the text \<^verbatim>\<open>null\<close> and parses to
  \<^verbatim>\<open>null\<close>.
\<close>

definition parse_item :: "env \<Rightarrow> string option \<Rightarrow> js_error + jsval" where
  "parse_item E item =
     (case item of
        None \<Rightarrow> Inr JNull
      | Some text \<Rightarrow>
          (case json_parse E text of None \<Rightarrow> Inl SyntaxError | Some v \<Rightarrow> Inr v))"

text \<open>
  \<^verbatim>\<open>ChatInterface.initiateChat(input, success, failure)\<close>, for an \<open>input\<close> that is an
  object. \<^verbatim>\<open>Object.assign({}, this.clientConfig, input)\<close> is the map of the defaults
  overridden by the properties of \<open>input\<close>. \<^verbatim>\<open>EventBus.trigger\<close> (of
  \<^verbatim>\<open>eventbus.js\<close>) is recorded with its arguments; the payload of
  \<^verbatim>\<open>rehydrateChat\<close> is the spread of the two values the event records.
\<close>

definition ChatInterface_initiateChat ::
  "env \<Rightarrow> props \<Rightarrow> callback \<Rightarrow> callback \<Rightarrow> container \<Rightarrow> outcome \<times> container" where
  "ChatInterface_initiateChat E input success failure s =
     (let chatInput = clientConfig ++\<^sub>f input;
          loaded =
            (case window_lookup E (field input ''chatPersistence'') of
               WFalsy \<Rightarrow> Inr JNull
             | WLocalStorage \<Rightarrow> parse_item E (getItem LocalStore chatSessionData s)
             | WSessionStorage \<Rightarrow> parse_item E (getItem SessionStore chatSessionData s)
             | WOther \<Rightarrow> Inl TypeError)
      in case loaded of
           Inl e \<Rightarrow> (Raised e, s)
         | Inr sessionData \<Rightarrow>
             if truthy sessionData
             then (Completed, emit (TriggerRehydrateChat chatInput sessionData success failure) s)
             else (Completed, emit (TriggerInitChat chatInput success failure) s))"

text \<open>
  The event object a listener of the \<^verbatim>\<open>message\<close> event receives: \<open>event_data\<close> is
  what \<^verbatim>\<open>event.data\<close> gives, a getter of the prototype and not an own property;
  \<open>event_own\<close> holds the own enumerable properties, which are what
  \<^verbatim>\<open>Object.assign\<close> copies and what a read of a name that is not a built-in property
  of events (\<^verbatim>\<open>initChat\<close>, \<^verbatim>\<open>chatPersistence\<close>) finds.
\<close>

record message_event =
  event_data :: jsval
  event_own :: props

text \<open>
  The event that \<^verbatim>\<open>postMessage(message)\<close> delivers: the message is under
  \<^verbatim>\<open>data\<close>, and the only own enumerable property is \<^verbatim>\<open>isTrusted\<close>.
\<close>

definition postMessage_event :: "jsval \<Rightarrow> message_event" where
  "postMessage_event message =
     \<lparr>event_data = message, event_own = fmap_of_list [(''isTrusted'', JBool True)]\<rparr>"

text \<open>
  The listener of the \<^verbatim>\<open>message\<close> event; \<open>data\<close> is the event object the listener
  receives. It tests \<^verbatim>\<open>data.initChat\<close> on the event and hands the event itself to
  \<^verbatim>\<open>initiateChat\<close>, without continuations.
\<close>

definition message_listener :: "env \<Rightarrow> message_event \<Rightarrow> container \<Rightarrow> outcome \<times> container" where
  "message_listener E data s =
     (if truthy (field (event_own data) ''initChat'')
      then ChatInterface_initiateChat E (event_own data) None None s
      else (Completed, s))"

section \<open>Concrete inputs\<close>

text \<open>
  The inputs at which the properties below are instantiated. The first three texts are
  session records; the third has an empty \<^verbatim>\<open>ContactId\<close>.
\<close>

definition record_text :: string where
  \<open>record_text = ''{"chatDetails":{"startChatResult":{"ContactId":"c1","ParticipantId":"p1"}},"displayName":"Ann","region":"us-east-1","stage":"prod","language":"fr_FR","composerConfig":{"attachmentsEnabled":true,"richMessagingEnabled":false}}''\<close>

definition other_text :: string where
  \<open>other_text = ''{"chatDetails":{"startChatResult":{"ContactId":"c2","ParticipantId":"p2"}},"displayName":"Bob","language":"de_DE"}''\<close>

definition empty_id_text :: string where
  \<open>empty_id_text = ''{"chatDetails":{"startChatResult":{"ContactId":"","ParticipantId":"p1"}},"language":"fr_FR"}''\<close>

definition start_result :: "string \<Rightarrow> string \<Rightarrow> jsval" where
  "start_result c p =
     JObj (fmap_of_list
       [(''startChatResult'',
         JObj (fmap_of_list [(''ContactId'', JStr c), (''ParticipantId'', JStr p)]))])"

definition record_value :: jsval where
  "record_value =
     JObj (fmap_of_list
       [(''chatDetails'', start_result ''c1'' ''p1''),
        (''displayName'', JStr ''Ann''),
        (''region'', JStr ''us-east-1''),
        (''stage'', JStr ''prod''),
        (''language'', JStr ''fr_FR''),
        (''composerConfig'', make_composerConfig (JBool True) False)])"

definition other_value :: jsval where
  "other_value =
     JObj (fmap_of_list
       [(''chatDetails'', start_result ''c2'' ''p2''),
        (''displayName'', JStr ''Bob''),
        (''language'', JStr ''de_DE'')])"

definition empty_id_value :: jsval where
  "empty_id_value =
     JObj (fmap_of_list
       [(''chatDetails'', start_result '''' ''p1''),
        (''language'', JStr ''fr_FR'')])"

text \<open>
  \<^verbatim>\<open>JSON.parse\<close> on the texts used below: the three records, the text \<^verbatim>\<open>null\<close>,
  and texts that are not JSON (such as \<^verbatim>\<open>{not json\<close> and the empty text).
\<close>

definition sample_parse :: "string \<Rightarrow> jsval option" where
  "sample_parse text =
     (if text = record_text then Some record_value
      else if text = other_text then Some other_value
      else if text = empty_id_text then Some empty_id_value
      else if text = ''null'' then Some JNull
      else None)"

text \<open>A configuration as the host supplies it, and the one without a persistence mode.\<close>

definition host_config :: props where
  "host_config =
     fmap_of_list
       [(''contactFlowId'', JStr ''cf1''),
        (''instanceId'', JStr ''i1''),
        (''region'', JStr ''us-east-1''),
        (''name'', JStr ''Ann''),
        (''chatPersistence'', JStr ''localStorage'')]"

definition host_config_no_persistence :: props where
  "host_config_no_persistence = fmdrop ''chatPersistence'' host_config"

text \<open>The text \<^verbatim>\<open>JSON.stringify\<close> gives for the record saved for \<open>host_config\<close>.\<close>

definition saved_text :: string where
  \<open>saved_text = ''{"chatDetails":{"startChatResult":{"ContactId":"c1","ParticipantId":"p1"}},"displayName":"Ann","region":"us-east-1","customizationParams":{"authenticationRedirectUri":"","authenticationIdentityProvider":""},"composerConfig":{"richMessagingEnabled":false}}''\<close>

definition sample_stringify :: "jsval \<Rightarrow> string" where
  "sample_stringify v =
     (if v = JObj (fmap_of_list
               [(''chatDetails'', start_result ''c1'' ''p1''),
                (''displayName'', JStr ''Ann''),
                (''region'', JStr ''us-east-1''),
                (''stage'', JUndefined),
                (''customizationParams'', make_customizationParams host_config),
                (''language'', JUndefined),
                (''composerConfig'', make_composerConfig JUndefined False)])
      then saved_text
      else ''null'')"

text \<open>
  A page on which the Session Initiator rejects with \<^verbatim>\<open>NetworkError\<close> and every open
  call resolves; \<open>open_fails\<close> is the page on which the Session Initiator resolves and
  every open call is rejected.
\<close>

definition sample_env :: env where
  "sample_env =
     \<lparr>json_parse = sample_parse,
      json_stringify = sample_stringify,
      initiateChat = (\<lambda>input. Inl (Reason (JStr ''NetworkError''))),
      openResult = (\<lambda>session. None),
      toPropertyKey = (\<lambda>v. ''[object Object]''),
      windowOther = (\<lambda>name. name = ''document''),
      ATTACHMENTS = ''ATTACHMENTS'',
      TEXT_MARKDOWN = ''text/markdown''\<rparr>"

definition open_fails :: env where
  "open_fails =
     sample_env\<lparr>initiateChat := (\<lambda>input. Inr (start_result ''c1'' ''p1'')),
                openResult := (\<lambda>session. Some (Reason (JStr ''WebSocketError'')))\<rparr>"

text \<open>A mounted component with a logger, and given texts in the two stores.\<close>

definition stored :: "string option \<Rightarrow> string option \<Rightarrow> container" where
  "stored l t =
     (constructed True)
       \<lparr>localStorage := Map.empty(chatSessionData := l),
        sessionStorage := Map.empty(chatSessionData := t)\<rparr>"

text \<open>The message \<^verbatim>\<open>{initChat: config}\<close> that a host page posts to the widget.\<close>

definition init_message :: jsval where
  "init_message = JObj (fmap_of_list [(''initChat'', JObj host_config)])"

section \<open>Properties\<close>

subsection \<open>The state after each primitive effect\<close>

lemma emit_fields [simp]:
  "status (emit e s) = status s"
  "chatSession (emit e s) = chatSession s"
  "composerConfig (emit e s) = composerConfig s"
  "language (emit e s) = language s"
  "logger (emit e s) = logger s"
  "localStorage (emit e s) = localStorage s"
  "sessionStorage (emit e s) = sessionStorage s"
  "trace (emit e s) = trace s @ [e]"
  by (simp_all add: emit_def)

lemma removeItem_fields [simp]:
  "status (removeItem st k s) = status s"
  "chatSession (removeItem st k s) = chatSession s"
  "composerConfig (removeItem st k s) = composerConfig s"
  "language (removeItem st k s) = language s"
  "logger (removeItem st k s) = logger s"
  "trace (removeItem st k s) = trace s @ [ItemRemoved st k]"
  by (cases st; simp add: removeItem_def)+

lemma removeItem_stores [simp]:
  "localStorage (removeItem LocalStore k s) = (localStorage s)(k := None)"
  "localStorage (removeItem SessionStore k s) = localStorage s"
  "sessionStorage (removeItem SessionStore k s) = (sessionStorage s)(k := None)"
  "sessionStorage (removeItem LocalStore k s) = sessionStorage s"
  by (simp_all add: removeItem_def)

lemma setItem_fields [simp]:
  "status (setItem st k v s) = status s"
  "chatSession (setItem st k v s) = chatSession s"
  "composerConfig (setItem st k v s) = composerConfig s"
  "language (setItem st k v s) = language s"
  "logger (setItem st k v s) = logger s"
  "trace (setItem st k v s) = trace s @ [ItemSet st k v]"
  by (cases st; simp add: setItem_def)+

lemma setItem_stores [simp]:
  "localStorage (setItem LocalStore k v s) = (localStorage s)(k \<mapsto> v)"
  "localStorage (setItem SessionStore k v s) = localStorage s"
  "sessionStorage (setItem SessionStore k v s) = (sessionStorage s)(k \<mapsto> v)"
  "sessionStorage (setItem LocalStore k v s) = sessionStorage s"
  by (simp_all add: setItem_def)

lemma setStatus_fields [simp]:
  "status (setStatus st s) = st"
  "chatSession (setStatus st s) = chatSession s"
  "composerConfig (setStatus st s) = composerConfig s"
  "language (setStatus st s) = language s"
  "logger (setStatus st s) = logger s"
  "localStorage (setStatus st s) = localStorage s"
  "sessionStorage (setStatus st s) = sessionStorage s"
  "trace (setStatus st s) = trace s @ [StatusSet st]"
  by (simp_all add: setStatus_def)

lemma logger_guarded_fields [simp]:
  "status (logger_guarded e s) = status s"
  "chatSession (logger_guarded e s) = chatSession s"
  "composerConfig (logger_guarded e s) = composerConfig s"
  "language (logger_guarded e s) = language s"
  "logger (logger_guarded e s) = logger s"
  "localStorage (logger_guarded e s) = localStorage s"
  "sessionStorage (logger_guarded e s) = sessionStorage s"
  by (simp_all add: logger_guarded_def)

lemma call_back_fields [simp]:
  "status (call_back cb a s) = status s"
  "chatSession (call_back cb a s) = chatSession s"
  "composerConfig (call_back cb a s) = composerConfig s"
  "language (call_back cb a s) = language s"
  "logger (call_back cb a s) = logger s"
  "localStorage (call_back cb a s) = localStorage s"
  "sessionStorage (call_back cb a s) = sessionStorage s"
  "trace (call_back (Some i) a s) = trace s @ [CallbackCalled i a]"
  "trace (call_back None a s) = trace s"
  by (simp_all add: call_back_def split: option.splits)

lemma call_back_trace: "\<exists>evs. trace (call_back cb a s) = trace s @ evs"
  by (cases cb) simp_all

lemma logger_call_present [simp]: "logger s \<Longrightarrow> logger_call e s = Inr (emit e s)"
  by (simp add: logger_call_def)

lemma logger_call_absent [simp]: "\<not> logger s \<Longrightarrow> logger_call e s = Inl TypeError"
  by (simp add: logger_call_def)

subsection \<open>Reading the stored text\<close>

lemma read_nonempty: "read_chatSessionData s = Some t \<Longrightarrow> t \<noteq> []"
  by (auto simp: read_chatSessionData_def item_or_def split: option.splits if_splits)

lemma read_local_first:
  "localStorage s chatSessionData = Some t \<Longrightarrow> t \<noteq> [] \<Longrightarrow> read_chatSessionData s = Some t"
  by (simp add: read_chatSessionData_def item_or_def getItem_def)

lemma read_session_fallback:
  "localStorage s chatSessionData = None \<or> localStorage s chatSessionData = Some [] \<Longrightarrow>
   sessionStorage s chatSessionData = Some t \<Longrightarrow> t \<noteq> [] \<Longrightarrow> read_chatSessionData s = Some t"
  by (auto simp add: read_chatSessionData_def item_or_def getItem_def)

lemma read_stored_local [simp]:
  "t \<noteq> [] \<Longrightarrow> read_chatSessionData (stored (Some t) u) = Some t"
  by (simp add: read_chatSessionData_def item_or_def getItem_def stored_def)

lemma read_stored_empty [simp]: "read_chatSessionData (stored (Some []) None) = None"
  by (simp add: read_chatSessionData_def item_or_def getItem_def stored_def)

lemma logger_stored [simp]: "logger (stored l t)"
  by (simp add: stored_def constructed_def)

lemma stored_stores [simp]:
  "localStorage (stored l t) chatSessionData = l"
  "sessionStorage (stored l t) chatSessionData = t"
  "trace (stored l t) = []"
  by (simp_all add: stored_def constructed_def)

subsection \<open>openChatSession\<close>

lemma valid_not_nullish: "valid_chatDetails d \<Longrightarrow> get_prop d k = Inr (prop_of d k)"
  by (cases d) (simp_all add: valid_chatDetails_def get_prop_def)

lemma valid_parent_not_nullish:
  "valid_chatDetails (prop_of R k) \<Longrightarrow> get_prop R k' = Inr (prop_of R k')"
  by (cases R) (simp_all add: valid_chatDetails_def get_prop_def)

lemma openChatSession_valid:
  "valid_chatDetails d \<Longrightarrow>
   openChatSession E d n r st cp s =
     (case openResult E (new_ChatSession d n r st cp) of
        Some e \<Rightarrow> (Inl e, emit (OpenCalled (new_ChatSession d n r st cp)) s)
      | None \<Rightarrow> (Inr (new_ChatSession d n r st cp), emit (OpenCalled (new_ChatSession d n r st cp)) s))"
  by (simp add: openChatSession_def valid_not_nullish Let_def valid_chatDetails_def)

lemma openChatSession_trace:
  "openChatSession E d n r st cp s = (res, s') \<Longrightarrow>
   (res = Inl TypeError \<and> nullish d \<and> s' = s) \<or>
   (\<exists>session. s' = emit (OpenCalled session) s \<and>
      (case openResult E session of Some e \<Rightarrow> res = Inl e | None \<Rightarrow> res = Inr session))"
  by (auto simp: openChatSession_def get_prop_def Let_def split: if_splits option.splits)

text \<open>A session is returned only for details that are neither null nor undefined.\<close>

lemma openChatSession_not_nullish:
  "openChatSession E d n r st cp s = (Inr session, s') \<Longrightarrow> \<not> nullish d"
  by (auto simp: openChatSession_def get_prop_def Let_def split: if_splits option.splits)

lemma open_trace_ext:
  "openChatSession E d n r st cp s = (res, s') \<Longrightarrow> \<exists>evs. trace s' = trace s @ evs"
  by (drule openChatSession_trace) auto

lemma open_stores:
  "openChatSession E d n r st cp s = (res, s') \<Longrightarrow>
   localStorage s' = localStorage s \<and> sessionStorage s' = sessionStorage s \<and>
   status s' = status s \<and> logger s' = logger s"
  by (drule openChatSession_trace) auto

subsection \<open>checkAndRehydrateChat, branch by branch\<close>

lemma rehydrate_try_returns:
  assumes "json_parse E t = Some R"
    and "valid_chatDetails (prop_of R ''chatDetails'')"
    and "logger s"
    and "openResult E (new_ChatSession (prop_of R ''chatDetails'') (prop_of R ''displayName'')
            (prop_of R ''region'') (prop_of R ''stage'') (prop_of R ''customizationParams'')) = None"
  shows "rehydrate_try E t s =
     (Inr True,
      emit (StatusSet Initiated)
        ((emit (OpenCalled (new_ChatSession (prop_of R ''chatDetails'') (prop_of R ''displayName'')
                  (prop_of R ''region'') (prop_of R ''stage'') (prop_of R ''customizationParams'')))
           (emit LoggerInfo (emit LoggerInfo s)))
         \<lparr>status := Initiated,
           chatSession := Some (new_ChatSession (prop_of R ''chatDetails'') (prop_of R ''displayName'')
                  (prop_of R ''region'') (prop_of R ''stage'') (prop_of R ''customizationParams'')),
           composerConfig := prop_of R ''composerConfig'',
           language := prop_of R ''language''\<rparr>))"
  using assms by (simp add: rehydrate_try_def valid_parent_not_nullish openChatSession_valid)

lemma rehydrate_try_open_rejected:
  assumes "json_parse E t = Some R"
    and "valid_chatDetails (prop_of R ''chatDetails'')"
    and "logger s"
    and "openResult E (new_ChatSession (prop_of R ''chatDetails'') (prop_of R ''displayName'')
            (prop_of R ''region'') (prop_of R ''stage'') (prop_of R ''customizationParams'')) = Some e"
  shows "rehydrate_try E t s =
     (Inl e,
      emit (OpenCalled (new_ChatSession (prop_of R ''chatDetails'') (prop_of R ''displayName'')
                  (prop_of R ''region'') (prop_of R ''stage'') (prop_of R ''customizationParams'')))
        (emit LoggerInfo (emit LoggerInfo s)))"
  using assms by (simp add: rehydrate_try_def valid_parent_not_nullish openChatSession_valid)

lemma checkAndRehydrateChat_returned:
  assumes "read_chatSessionData s = Some t"
    and "rehydrate_try E t s = (Inr True, s1)"
  shows "checkAndRehydrateChat E s = (Completed, s1)"
  using assms read_nonempty [OF assms(1)] by (simp add: checkAndRehydrateChat_def)

lemma checkAndRehydrateChat_caught:
  assumes "read_chatSessionData s = Some t"
    and "rehydrate_try E t s = (Inl error, s1)"
    and "logger s1"
  shows "checkAndRehydrateChat E s =
           (Completed,
            setStatus NotInitiated
              (removeItem SessionStore chatSessionData
                 (removeItem LocalStore chatSessionData (emit LoggerError s1))))"
  using assms read_nonempty [OF assms(1)] by (simp add: checkAndRehydrateChat_def)

lemma checkAndRehydrateChat_fell_through:
  assumes "read_chatSessionData s = Some t"
    and "json_parse E t = Some R"
    and "\<not> nullish R"
    and "\<not> valid_chatDetails (prop_of R ''chatDetails'')"
  shows "checkAndRehydrateChat E s = (Completed, setStatus NotInitiated s)"
proof -
  have "rehydrate_try E t s = (Inr False, s)"
    using assms(2-4) by (simp add: rehydrate_try_def get_prop_def)
  then show ?thesis using assms(1) read_nonempty [OF assms(1)]
    by (simp add: checkAndRehydrateChat_def)
qed

lemma checkAndRehydrateChat_nothing_read:
  "read_chatSessionData s = None \<Longrightarrow>
   checkAndRehydrateChat E s = (Completed, setStatus NotInitiated s)"
  by (simp add: checkAndRehydrateChat_def)

text \<open>
  Without a logger, the \<^verbatim>\<open>catch\<close> block itself throws at
  \<^verbatim>\<open>this.logger.error\<close>: the promise of the call is rejected, nothing is removed and
  the status is not set.
\<close>

lemma checkAndRehydrateChat_without_logger:
  assumes "read_chatSessionData s = Some t"
    and "json_parse E t = None"
    and "\<not> logger s"
  shows "checkAndRehydrateChat E s = (Raised TypeError, s)"
  using assms read_nonempty [OF assms(1)]
  by (simp add: checkAndRehydrateChat_def rehydrate_try_def)

lemma rehydrate_try_stores:
  assumes "rehydrate_try E t s = (res, s')"
  shows "localStorage s' = localStorage s \<and> sessionStorage s' = sessionStorage s \<and>
         logger s' = logger s"
proof (cases "json_parse E t")
  case None
  then show ?thesis using assms by (auto simp: rehydrate_try_def)
next
  case (Some R)
  show ?thesis
  proof (cases "valid_chatDetails (prop_of R ''chatDetails'') \<and> \<not> nullish R \<and> logger s")
    case False
    then show ?thesis using assms Some
      by (auto simp: rehydrate_try_def get_prop_def logger_call_def split: if_splits)
  next
    case True
    obtain res3 s3 where o: "openChatSession E (prop_of R ''chatDetails'')
        (prop_of R ''displayName'') (prop_of R ''region'') (prop_of R ''stage'')
        (prop_of R ''customizationParams'') (emit LoggerInfo (emit LoggerInfo s)) = (res3, s3)"
      by (cases "openChatSession E (prop_of R ''chatDetails'')
        (prop_of R ''displayName'') (prop_of R ''region'') (prop_of R ''stage'')
        (prop_of R ''customizationParams'') (emit LoggerInfo (emit LoggerInfo s))") auto
    from open_stores [OF o] show ?thesis using assms Some True o
      by (cases res3) (auto simp: rehydrate_try_def get_prop_def logger_call_def)
  qed
qed

lemma rehydrate_at_most_one:
  assumes "localStorage s chatSessionData = None \<or> sessionStorage s chatSessionData = None"
  shows "localStorage (snd (checkAndRehydrateChat E s)) chatSessionData = None \<or>
         sessionStorage (snd (checkAndRehydrateChat E s)) chatSessionData = None"
proof (cases "read_chatSessionData s")
  case None
  then show ?thesis using assms by (simp add: checkAndRehydrateChat_def)
next
  case (Some stored_text)
  obtain res s1 where t: "rehydrate_try E stored_text s = (res, s1)"
    by (cases "rehydrate_try E stored_text s") auto
  from rehydrate_try_stores [OF t] show ?thesis using assms Some t
    by (auto simp: checkAndRehydrateChat_def logger_call_def split: sum.splits)
qed

subsection \<open>saveChatSession, branch by branch\<close>

lemma attachmentsEnabled_TypeError:
  "attachmentsEnabled E input cd = Inl e \<Longrightarrow> e = TypeError \<and> nullish cd"
  by (auto simp: attachmentsEnabled_def get_prop_def Let_def split: if_splits)

lemma attachmentsEnabled_defined:
  "\<not> nullish cd \<Longrightarrow> \<exists>att. attachmentsEnabled E input cd = Inr att"
  by (cases "attachmentsEnabled E input cd") (auto dest: attachmentsEnabled_TypeError)

lemma window_lookup_cases:
  "window_lookup E v = WLocalStorage \<longleftrightarrow> property_key E v = ''localStorage''"
  "window_lookup E v = WSessionStorage \<longleftrightarrow> property_key E v = ''sessionStorage''"
  by (simp_all add: window_lookup_def Let_def)

lemma window_lookup_absent: "window_lookup E JUndefined = WFalsy"
  by (simp add: window_lookup_def)

lemma field_absent: "fmlookup input k = None \<Longrightarrow> field input k = JUndefined"
  by (simp add: field_def)

lemma save_local:
  assumes "window_lookup E (field input ''chatPersistence'') = WLocalStorage"
    and "attachmentsEnabled E input cd = Inr att"
  shows "saveChatSession E input cd cp s =
     (Completed,
      setItem LocalStore chatSessionData
        (json_stringify E (session_record E input cd cp att))
        (removeItem SessionStore chatSessionData (removeItem LocalStore chatSessionData s)))"
  using assms by (simp add: saveChatSession_def Let_def)

lemma save_session:
  assumes "window_lookup E (field input ''chatPersistence'') = WSessionStorage"
    and "attachmentsEnabled E input cd = Inr att"
  shows "saveChatSession E input cd cp s =
     (Completed,
      setItem SessionStore chatSessionData
        (json_stringify E (session_record E input cd cp att))
        (removeItem SessionStore chatSessionData (removeItem LocalStore chatSessionData s)))"
  using assms by (simp add: saveChatSession_def Let_def)

lemma save_falsy:
  assumes "window_lookup E (field input ''chatPersistence'') = WFalsy"
  shows "saveChatSession E input cd cp s =
     (Completed,
      removeItem SessionStore chatSessionData (removeItem LocalStore chatSessionData
        (removeItem SessionStore chatSessionData (removeItem LocalStore chatSessionData s))))"
  using assms by (simp add: saveChatSession_def Let_def)

lemma save_other:
  assumes "window_lookup E (field input ''chatPersistence'') = WOther"
  shows "saveChatSession E input cd cp s =
     (Raised TypeError,
      removeItem SessionStore chatSessionData (removeItem LocalStore chatSessionData s))"
  using assms
  by (auto simp: saveChatSession_def Let_def split: sum.splits dest: attachmentsEnabled_TypeError)

lemma save_throws:
  assumes "attachmentsEnabled E input cd = Inl e"
    and "window_lookup E (field input ''chatPersistence'') \<noteq> WFalsy"
  shows "saveChatSession E input cd cp s =
     (Raised e,
      removeItem SessionStore chatSessionData (removeItem LocalStore chatSessionData s))"
  using assms
  by (auto simp: saveChatSession_def Let_def split: window_value.splits)

lemma save_at_most_one:
  "localStorage (snd (saveChatSession E input cd cp s)) chatSessionData = None \<or>
   sessionStorage (snd (saveChatSession E input cd cp s)) chatSessionData = None"
  by (auto simp: saveChatSession_def Let_def split: window_value.splits sum.splits)

lemma save_trace_prefix:
  "\<exists>rest. trace (snd (saveChatSession E input cd cp s)) =
      trace s @ ItemRemoved LocalStore chatSessionData # ItemRemoved SessionStore chatSessionData # rest"
  by (auto simp: saveChatSession_def Let_def split: window_value.splits sum.splits)

lemma save_idem_stores:
  "localStorage (snd (saveChatSession E input cd cp (snd (saveChatSession E input cd cp s)))) =
     localStorage (snd (saveChatSession E input cd cp s)) \<and>
   sessionStorage (snd (saveChatSession E input cd cp (snd (saveChatSession E input cd cp s)))) =
     sessionStorage (snd (saveChatSession E input cd cp s)) \<and>
   fst (saveChatSession E input cd cp (snd (saveChatSession E input cd cp s))) =
     fst (saveChatSession E input cd cp s)"
  by (auto simp: saveChatSession_def Let_def split: window_value.splits sum.splits)

lemma save_trace_ext:
  "saveChatSession E input cd cp s = (out, s') \<Longrightarrow> \<exists>evs. trace s' = trace s @ evs"
  using save_trace_prefix [of E input cd cp s] by auto

subsection \<open>submitChatInitiation\<close>

lemma submit_initiator_rejects:
  assumes "initiateChat E input = Inl e"
  shows "submitChatInitiation E input success failure s =
     (Completed,
      call_back failure (Inl e)
        (setStatus InitiateFailed (emit (InitiatorCalled input) (setStatus Initiating s))))"
  using assms by (simp add: submitChatInitiation_def submit_try_def Let_def)

lemma submit_try_trace:
  assumes "submit_try E input success cp s = (res, s')"
  shows "\<exists>rest. trace s' = trace s @ InitiatorCalled input # rest"
proof (cases "initiateChat E input")
  case (Inl e)
  then show ?thesis using assms by (auto simp: submit_try_def Let_def)
next
  case (Inr d)
  show ?thesis
  proof (cases "logger s")
    case False
    then show ?thesis using assms Inr by (auto simp: submit_try_def Let_def logger_call_def)
  next
    case True
    obtain res3 s3 where o: "openChatSession E d (field input ''name'') (field input ''region'')
        (field input ''stage'') cp (emit LoggerInfo (emit (InitiatorCalled input) s)) = (res3, s3)"
      by (cases "openChatSession E d (field input ''name'') (field input ''region'')
        (field input ''stage'') cp (emit LoggerInfo (emit (InitiatorCalled input) s))") auto
    from open_trace_ext [OF o] obtain evs3 where
      t3: "trace s3 = trace s @ InitiatorCalled input # LoggerInfo # evs3" by auto
    show ?thesis
    proof (cases res3)
      case (Inl e)
      then show ?thesis using assms Inr True o t3
        by (auto simp: submit_try_def Let_def logger_call_def)
    next
      case session: (Inr session)
      obtain out4 s4 where sv: "saveChatSession E input d cp s3 = (out4, s4)"
        by (cases "saveChatSession E input d cp s3") auto
      from save_trace_ext [OF sv] t3 obtain evs4 where
        t4: "trace s4 = trace s @ InitiatorCalled input # LoggerInfo # evs4" by auto
      show ?thesis
      proof (cases out4)
        case (Raised e)
        then show ?thesis using assms Inr True o session sv t4
          by (auto simp: submit_try_def Let_def logger_call_def)
      next
        case Completed
        show ?thesis
        proof (cases "attachmentsEnabled E input d")
          case (Inl e)
          then show ?thesis using assms Inr True o session sv t4 Completed
            by (auto simp: submit_try_def Let_def logger_call_def)
        next
          case att: (Inr att)
          show ?thesis using assms Inr True o session sv t4 Completed att
            by (cases success) (auto simp: submit_try_def Let_def logger_call_def)
        qed
      qed
    qed
  qed
qed

lemma submit_trace_prefix:
  "\<exists>rest. trace (snd (submitChatInitiation E input success failure s)) =
      trace s @ StatusSet Initiating # InitiatorCalled input # rest"
proof -
  obtain res s2 where t: "submit_try E input success (make_customizationParams input)
      (setStatus Initiating s) = (res, s2)"
    by (cases "submit_try E input success (make_customizationParams input) (setStatus Initiating s)") auto
  from submit_try_trace [OF t] obtain rest where
    r: "trace s2 = trace s @ StatusSet Initiating # InitiatorCalled input # rest" by auto
  show ?thesis
  proof (cases res)
    case (Inl e)
    then show ?thesis using t r call_back_trace [of failure "Inl e" "setStatus InitiateFailed s2"]
      by (auto simp: submitChatInitiation_def Let_def)
  next
    case (Inr u)
    then show ?thesis using t r by (simp add: submitChatInitiation_def Let_def)
  qed
qed

lemma submit_open_rejected:
  assumes "OpenCalled session \<in> set (drop (length (trace s))
              (trace (snd (submitChatInitiation E input success failure s))))"
    and "openResult E session = Some e"
  shows "submitChatInitiation E input success failure s =
     (Completed,
      call_back failure (Inl e)
        (setStatus InitiateFailed
           (emit (OpenCalled session)
              (emit LoggerInfo (emit (InitiatorCalled input) (setStatus Initiating s))))))"
proof (cases "initiateChat E input")
  case (Inl a)
  then show ?thesis using assms(1)
    by (cases failure) (simp_all add: submit_initiator_rejects)
next
  case (Inr d)
  show ?thesis
  proof (cases "logger s")
    case False
    then show ?thesis using assms(1) Inr
      by (cases failure) (simp_all add: submitChatInitiation_def submit_try_def Let_def logger_call_def)
  next
    case True
    obtain res s3 where o: "openChatSession E d (field input ''name'') (field input ''region'')
        (field input ''stage'') (make_customizationParams input)
        (emit LoggerInfo (emit (InitiatorCalled input) (setStatus Initiating s))) = (res, s3)"
      by (cases "openChatSession E d (field input ''name'') (field input ''region'')
        (field input ''stage'') (make_customizationParams input)
        (emit LoggerInfo (emit (InitiatorCalled input) (setStatus Initiating s)))") auto
    from openChatSession_trace [OF o] show ?thesis
    proof
      assume "res = Inl TypeError \<and> nullish d \<and> s3 = emit LoggerInfo (emit (InitiatorCalled input) (setStatus Initiating s))"
      then show ?thesis using assms(1) Inr True o
        by (cases failure) (simp_all add: submitChatInitiation_def submit_try_def Let_def logger_call_def)
    next
      assume "\<exists>session. s3 = emit (OpenCalled session) (emit LoggerInfo (emit (InitiatorCalled input) (setStatus Initiating s))) \<and>
         (case openResult E session of Some e \<Rightarrow> res = Inl e | None \<Rightarrow> res = Inr session)"
      then obtain session' where s3: "s3 = emit (OpenCalled session') (emit LoggerInfo (emit (InitiatorCalled input) (setStatus Initiating s)))"
        and r: "(case openResult E session' of Some e \<Rightarrow> res = Inl e | None \<Rightarrow> res = Inr session')"
        by blast
      show ?thesis
      proof (cases "openResult E session'")
        case (Some e')
        then have res: "res = Inl e'" using r by simp
        have eq: "submitChatInitiation E input success failure s =
          (Completed, call_back failure (Inl e') (setStatus InitiateFailed s3))"
          using Inr True o res
          by (simp add: submitChatInitiation_def submit_try_def Let_def logger_call_def)
        have "session = session'" using assms(1) eq s3
          by (cases failure) simp_all
        then show ?thesis using eq s3 Some assms(2) by simp
      next
        case None
        then have res: "res = Inr session'" using r by simp
        have "session \<noteq> session'" using None assms(2) by auto
        moreover have "session = session'"
          using assms(1) Inr True o res s3
          apply (simp add: submitChatInitiation_def submit_try_def Let_def logger_call_def)
          apply (auto simp: saveChatSession_def Let_def call_back_def
                  split: prod.splits sum.splits outcome.splits window_value.splits option.splits)
          done
        ultimately show ?thesis by simp
      qed
    qed
  qed
qed

lemma submit_try_at_most_one:
  assumes "submit_try E input success cp s = (res, s')"
    and "localStorage s chatSessionData = None \<or> sessionStorage s chatSessionData = None"
  shows "localStorage s' chatSessionData = None \<or> sessionStorage s' chatSessionData = None"
proof (cases "initiateChat E input")
  case (Inl e)
  then show ?thesis using assms by (auto simp: submit_try_def Let_def)
next
  case (Inr d)
  show ?thesis
  proof (cases "logger s")
    case False
    then show ?thesis using assms Inr by (auto simp: submit_try_def Let_def logger_call_def)
  next
    case True
    obtain res3 s3 where o: "openChatSession E d (field input ''name'') (field input ''region'')
        (field input ''stage'') cp (emit LoggerInfo (emit (InitiatorCalled input) s)) = (res3, s3)"
      by (cases "openChatSession E d (field input ''name'') (field input ''region'')
        (field input ''stage'') cp (emit LoggerInfo (emit (InitiatorCalled input) s))") auto
    from open_stores [OF o] have
      t3: "localStorage s3 = localStorage s \<and> sessionStorage s3 = sessionStorage s" by simp
    show ?thesis
    proof (cases res3)
      case (Inl e)
      then show ?thesis using assms Inr True o t3
        by (auto simp: submit_try_def Let_def logger_call_def)
    next
      case session: (Inr session)
      obtain out4 s4 where sv: "saveChatSession E input d cp s3 = (out4, s4)"
        by (cases "saveChatSession E input d cp s3") auto
      from save_at_most_one [of E input d cp s3] sv have
        t4: "localStorage s4 chatSessionData = None \<or> sessionStorage s4 chatSessionData = None"
        by simp
      show ?thesis
      proof (cases out4)
        case (Raised e)
        then show ?thesis using assms(1) Inr True o session sv t4
          by (auto simp: submit_try_def Let_def logger_call_def)
      next
        case Completed
        show ?thesis
        proof (cases "attachmentsEnabled E input d")
          case (Inl e)
          then show ?thesis using assms(1) Inr True o session sv t4 Completed
            by (auto simp: submit_try_def Let_def logger_call_def)
        next
          case att: (Inr att)
          show ?thesis using assms(1) Inr True o session sv t4 Completed att
            by (auto simp: submit_try_def Let_def logger_call_def)
        qed
      qed
    qed
  qed
qed

lemma submit_at_most_one:
  assumes "localStorage s chatSessionData = None \<or> sessionStorage s chatSessionData = None"
  shows "localStorage (snd (submitChatInitiation E input success failure s)) chatSessionData = None \<or>
         sessionStorage (snd (submitChatInitiation E input success failure s)) chatSessionData = None"
proof -
  obtain res s2 where t: "submit_try E input success (make_customizationParams input)
      (setStatus Initiating s) = (res, s2)"
    by (cases "submit_try E input success (make_customizationParams input) (setStatus Initiating s)") auto
  from submit_try_at_most_one [OF t] assms have
    "localStorage s2 chatSessionData = None \<or> sessionStorage s2 chatSessionData = None" by simp
  then show ?thesis using t by (cases res) (auto simp: submitChatInitiation_def Let_def)
qed

subsection \<open>ChatInterface.initiateChat\<close>

lemma ChatInterface_stores:
  "localStorage (snd (ChatInterface_initiateChat E input su fa s)) = localStorage s \<and>
   sessionStorage (snd (ChatInterface_initiateChat E input su fa s)) = sessionStorage s"
  by (auto simp: ChatInterface_initiateChat_def Let_def split: sum.splits)

lemma ChatInterface_parse_error:
  assumes "window_lookup E (field input ''chatPersistence'') = WLocalStorage"
    and "localStorage s chatSessionData = Some text"
    and "json_parse E text = None"
  shows "ChatInterface_initiateChat E input su fa s = (Raised SyntaxError, s)"
  using assms by (simp add: ChatInterface_initiateChat_def Let_def parse_item_def getItem_def)

lemma ChatInterface_fresh:
  assumes "window_lookup E (field input ''chatPersistence'') = WFalsy \<or>
      (window_lookup E (field input ''chatPersistence'') = WLocalStorage \<and>
       parse_item E (getItem LocalStore chatSessionData s) = Inr v \<and> \<not> truthy v) \<or>
      (window_lookup E (field input ''chatPersistence'') = WSessionStorage \<and>
       parse_item E (getItem SessionStore chatSessionData s) = Inr v \<and> \<not> truthy v)"
  shows "ChatInterface_initiateChat E input su fa s =
           (Completed, emit (TriggerInitChat (clientConfig ++\<^sub>f input) su fa) s)"
  using assms by (auto simp: ChatInterface_initiateChat_def Let_def)

lemma merged_lookup:
  "fmlookup (clientConfig ++\<^sub>f input) k =
     (case fmlookup input k of Some v \<Rightarrow> Some v | None \<Rightarrow> fmlookup clientConfig k)"
  by (auto simp: fmlookup_dom_iff split: option.splits)

text \<open>
  The listener acts only on an event that has \<^verbatim>\<open>initChat\<close> as a property of its own,
  which an event delivered by \<^verbatim>\<open>postMessage\<close> never has.
\<close>

lemma message_listener_own_initChat:
  "truthy (field (event_own data) ''initChat'') \<Longrightarrow>
   message_listener E data s = ChatInterface_initiateChat E (event_own data) None None s"
  by (simp add: message_listener_def)

lemma message_listener_postMessage:
  "message_listener E (postMessage_event message) s = (Completed, s)"
  by (simp add: message_listener_def postMessage_event_def field_def)

subsection \<open>The concrete inputs\<close>

lemma constructed_fields [simp]:
  "status (constructed b) = NotInitiated"
  "chatSession (constructed b) = None"
  "logger (constructed b) = b"
  "localStorage (constructed b) = Map.empty"
  "sessionStorage (constructed b) = Map.empty"
  "trace (constructed b) = []"
  by (simp_all add: constructed_def)

lemma sample_initiator: "initiateChat sample_env input = Inl (Reason (JStr ''NetworkError''))"
  by (simp add: sample_env_def)

lemma open_fails_fields:
  "initiateChat open_fails input = Inr (start_result ''c1'' ''p1'')"
  "openResult open_fails session = Some (Reason (JStr ''WebSocketError''))"
  "json_parse open_fails = sample_parse"
  by (simp_all add: open_fails_def sample_env_def)

lemma open_fails_submit_trace:
  "trace (snd (submitChatInitiation open_fails host_config (Some 10) (Some 20) (constructed True))) =
     [StatusSet Initiating, InitiatorCalled host_config, LoggerInfo,
      OpenCalled (new_ChatSession (start_result ''c1'' ''p1'') (JStr ''Ann'') (JStr ''us-east-1'')
                    JUndefined (make_customizationParams host_config)),
      StatusSet InitiateFailed,
      CallbackCalled 20 (Inl (Reason (JStr ''WebSocketError'')))]"
  by (simp add: submitChatInitiation_def submit_try_def Let_def open_fails_fields
        openChatSession_def get_prop_def start_result_def constructed_def
        host_config_def field_def)

lemma parse_samples:
  "json_parse sample_env record_text = Some record_value"
  "json_parse sample_env empty_id_text = Some empty_id_value"
  "json_parse sample_env ''null'' = Some JNull"
  "json_parse sample_env ''{not json'' = None"
  "json_parse sample_env [] = None"
  by (simp_all add: sample_env_def sample_parse_def record_text_def other_text_def
        empty_id_text_def)

lemma valid_record_value: "valid_chatDetails (prop_of record_value ''chatDetails'')"
  by (simp add: record_value_def start_result_def valid_chatDetails_def)

lemma invalid_empty_id_value:
  "\<not> valid_chatDetails (prop_of empty_id_value ''chatDetails'')"
  "\<not> nullish empty_id_value"
  by (simp_all add: empty_id_value_def start_result_def valid_chatDetails_def)

lemma read_record_text [simp]:
  "read_chatSessionData (stored (Some record_text) u) = Some record_text"
  "read_chatSessionData (stored (Some empty_id_text) u) = Some empty_id_text"
  by (simp_all add: record_text_def empty_id_text_def)

lemma host_config_fields:
  "field host_config ''chatPersistence'' = JStr ''localStorage''"
  "field host_config ''featurePermissions'' = JUndefined"
  "field host_config ''name'' = JStr ''Ann''"
  "field host_config ''region'' = JStr ''us-east-1''"
  "field host_config ''stage'' = JUndefined"
  "field host_config ''language'' = JUndefined"
  "field host_config ''supportedMessagingContentTypes'' = JUndefined"
  "field host_config_no_persistence ''chatPersistence'' = JUndefined"
  "fmlookup host_config_no_persistence ''chatPersistence'' = None"
  by (simp_all add: host_config_def host_config_no_persistence_def field_def)

lemma attachments_sample:
  "attachmentsEnabled sample_env host_config (start_result ''c1'' ''p1'') = Inr JUndefined"
  by (simp add: attachmentsEnabled_def host_config_fields get_prop_def start_result_def)

lemma stringify_sample:
  "json_stringify sample_env
     (session_record sample_env host_config (start_result ''c1'' ''p1'')
        (make_customizationParams host_config) JUndefined) = saved_text"
  by (simp add: sample_env_def sample_stringify_def session_record_def host_config_fields
        richMessagingEnabled_def)

lemma window_samples:
  "window_lookup sample_env (JStr ''localStorage'') = WLocalStorage"
  "window_lookup sample_env JUndefined = WFalsy"
  by (simp_all add: window_lookup_def)

subsection \<open>The claims\<close>

text \<open>
  C1. \<^verbatim>\<open>submitChatInitiation\<close> sets the status to Initiating before the Session
  Initiator is called. When the Session Initiator rejects with \<open>e\<close>, or when the open
  call is made for a session and rejects with \<open>e\<close>, the call ends with the status
  InitiateFailed, the failure continuation called once with \<open>e\<close>, and both stores as
  they were: no item is set or removed.
\<close>

theorem submitChatInitiation_failure:
  "(\<exists>rest. trace (snd (submitChatInitiation E input success (Some f) s)) =
       trace s @ StatusSet Initiating # InitiatorCalled input # rest) \<and>
   (initiateChat E input = Inl e \<longrightarrow>
      fst (submitChatInitiation E input success (Some f) s) = Completed \<and>
      status (snd (submitChatInitiation E input success (Some f) s)) = InitiateFailed \<and>
      trace (snd (submitChatInitiation E input success (Some f) s)) =
        trace s @ [StatusSet Initiating, InitiatorCalled input,
                   StatusSet InitiateFailed, CallbackCalled f (Inl e)] \<and>
      localStorage (snd (submitChatInitiation E input success (Some f) s)) = localStorage s \<and>
      sessionStorage (snd (submitChatInitiation E input success (Some f) s)) = sessionStorage s) \<and>
   (OpenCalled session \<in> set (drop (length (trace s))
        (trace (snd (submitChatInitiation E input success (Some f) s)))) \<and>
    openResult E session = Some e \<longrightarrow>
      fst (submitChatInitiation E input success (Some f) s) = Completed \<and>
      status (snd (submitChatInitiation E input success (Some f) s)) = InitiateFailed \<and>
      trace (snd (submitChatInitiation E input success (Some f) s)) =
        trace s @ [StatusSet Initiating, InitiatorCalled input, LoggerInfo, OpenCalled session,
                   StatusSet InitiateFailed, CallbackCalled f (Inl e)] \<and>
      localStorage (snd (submitChatInitiation E input success (Some f) s)) = localStorage s \<and>
      sessionStorage (snd (submitChatInitiation E input success (Some f) s)) = sessionStorage s)"
proof (intro conjI impI)
  show "\<exists>rest. trace (snd (submitChatInitiation E input success (Some f) s)) =
       trace s @ StatusSet Initiating # InitiatorCalled input # rest"
    by (rule submit_trace_prefix)
next
  assume "initiateChat E input = Inl e"
  then have eq: "submitChatInitiation E input success (Some f) s =
     (Completed,
      call_back (Some f) (Inl e)
        (setStatus InitiateFailed (emit (InitiatorCalled input) (setStatus Initiating s))))"
    by (rule submit_initiator_rejects)
  show "fst (submitChatInitiation E input success (Some f) s) = Completed"
    and "status (snd (submitChatInitiation E input success (Some f) s)) = InitiateFailed"
    and "trace (snd (submitChatInitiation E input success (Some f) s)) =
        trace s @ [StatusSet Initiating, InitiatorCalled input,
                   StatusSet InitiateFailed, CallbackCalled f (Inl e)]"
    and "localStorage (snd (submitChatInitiation E input success (Some f) s)) = localStorage s"
    and "sessionStorage (snd (submitChatInitiation E input success (Some f) s)) = sessionStorage s"
    by (simp_all add: eq)
next
  assume "OpenCalled session \<in> set (drop (length (trace s))
        (trace (snd (submitChatInitiation E input success (Some f) s)))) \<and>
    openResult E session = Some e"
  then have eq: "submitChatInitiation E input success (Some f) s =
     (Completed,
      call_back (Some f) (Inl e)
        (setStatus InitiateFailed
           (emit (OpenCalled session)
              (emit LoggerInfo (emit (InitiatorCalled input) (setStatus Initiating s))))))"
    using submit_open_rejected by blast
  show "fst (submitChatInitiation E input success (Some f) s) = Completed"
    and "status (snd (submitChatInitiation E input success (Some f) s)) = InitiateFailed"
    and "trace (snd (submitChatInitiation E input success (Some f) s)) =
        trace s @ [StatusSet Initiating, InitiatorCalled input, LoggerInfo, OpenCalled session,
                   StatusSet InitiateFailed, CallbackCalled f (Inl e)]"
    and "localStorage (snd (submitChatInitiation E input success (Some f) s)) = localStorage s"
    and "sessionStorage (snd (submitChatInitiation E input success (Some f) s)) = sessionStorage s"
    by (simp_all add: eq)
qed

text \<open>
  The two failures at concrete inputs: the Session Initiator rejecting with
  \<^verbatim>\<open>NetworkError\<close>, and the open call rejecting with \<^verbatim>\<open>WebSocketError\<close>.
\<close>

theorem submitChatInitiation_failure_witness:
  "initiateChat sample_env host_config = Inl (Reason (JStr ''NetworkError'')) \<and>
   status (snd (submitChatInitiation sample_env host_config (Some 10) (Some 20) (constructed True)))
     = InitiateFailed \<and>
   trace (snd (submitChatInitiation sample_env host_config (Some 10) (Some 20) (constructed True)))
     = [StatusSet Initiating, InitiatorCalled host_config, StatusSet InitiateFailed,
        CallbackCalled 20 (Inl (Reason (JStr ''NetworkError'')))] \<and>
   openResult open_fails
     (new_ChatSession (start_result ''c1'' ''p1'') (JStr ''Ann'') (JStr ''us-east-1'')
        JUndefined (make_customizationParams host_config))
     = Some (Reason (JStr ''WebSocketError'')) \<and>
   status (snd (submitChatInitiation open_fails host_config (Some 10) (Some 20) (constructed True)))
     = InitiateFailed \<and>
   localStorage (snd (submitChatInitiation open_fails host_config (Some 10) (Some 20) (constructed True)))
     = Map.empty"
proof -
  have a: "OpenCalled (new_ChatSession (start_result ''c1'' ''p1'') (JStr ''Ann'') (JStr ''us-east-1'')
                    JUndefined (make_customizationParams host_config))
      \<in> set (drop (length (trace (constructed True)))
           (trace (snd (submitChatInitiation open_fails host_config (Some 10) (Some 20) (constructed True)))))"
    by (simp add: open_fails_submit_trace)
  show ?thesis
    using submitChatInitiation_failure [of sample_env host_config "Some 10" 20 "constructed True"
            "Reason (JStr ''NetworkError'')"
            "new_ChatSession (start_result ''c1'' ''p1'') (JStr ''Ann'') (JStr ''us-east-1'')
                    JUndefined (make_customizationParams host_config)"]
          submitChatInitiation_failure [of open_fails host_config "Some 10" 20 "constructed True"
            "Reason (JStr ''WebSocketError'')"
            "new_ChatSession (start_result ''c1'' ''p1'') (JStr ''Ann'') (JStr ''us-east-1'')
                    JUndefined (make_customizationParams host_config)"]
          a
    by (simp add: sample_initiator open_fails_fields)
qed

text \<open>
  C2, as amended. When the text that \<^verbatim>\<open>checkAndRehydrateChat\<close> reads (the one of
  local storage if it is not empty, whatever session storage holds) parses to a record
  \<open>R\<close> whose \<^verbatim>\<open>chatDetails.startChatResult\<close> has a truthy \<^verbatim>\<open>ContactId\<close> and a truthy
  \<^verbatim>\<open>ParticipantId\<close>, the component has a logger, and the open call for the session built
  from \<open>R\<close> resolves, then the call opens that session and ends with the status Initiated
  and \<^verbatim>\<open>composerConfig\<close> and \<^verbatim>\<open>language\<close> equal to the fields of \<open>R\<close>; the stores are
  unchanged.
\<close>

theorem rehydrate_valid_record:
  assumes "read_chatSessionData s = Some t"
    and "json_parse E t = Some R"
    and "valid_chatDetails (prop_of R ''chatDetails'')"
    and "logger s"
    and "openResult E (new_ChatSession (prop_of R ''chatDetails'') (prop_of R ''displayName'')
            (prop_of R ''region'') (prop_of R ''stage'') (prop_of R ''customizationParams'')) = None"
  shows "fst (checkAndRehydrateChat E s) = Completed \<and>
         status (snd (checkAndRehydrateChat E s)) = Initiated \<and>
         composerConfig (snd (checkAndRehydrateChat E s)) = prop_of R ''composerConfig'' \<and>
         language (snd (checkAndRehydrateChat E s)) = prop_of R ''language'' \<and>
         chatSession (snd (checkAndRehydrateChat E s)) =
           Some (new_ChatSession (prop_of R ''chatDetails'') (prop_of R ''displayName'')
                  (prop_of R ''region'') (prop_of R ''stage'') (prop_of R ''customizationParams'')) \<and>
         trace (snd (checkAndRehydrateChat E s)) =
           trace s @ [LoggerInfo, LoggerInfo,
             OpenCalled (new_ChatSession (prop_of R ''chatDetails'') (prop_of R ''displayName'')
                  (prop_of R ''region'') (prop_of R ''stage'') (prop_of R ''customizationParams'')),
             StatusSet Initiated] \<and>
         localStorage (snd (checkAndRehydrateChat E s)) = localStorage s \<and>
         sessionStorage (snd (checkAndRehydrateChat E s)) = sessionStorage s \<and>
         (\<forall>l. localStorage s chatSessionData = Some l \<and> l \<noteq> [] \<longrightarrow> t = l)"
proof -
  have loc: "\<forall>l. localStorage s chatSessionData = Some l \<and> l \<noteq> [] \<longrightarrow> t = l"
    using assms(1) read_local_first by fastforce
  from checkAndRehydrateChat_returned [OF assms(1) rehydrate_try_returns [OF assms(2-5)]]
  show ?thesis using loc by simp
qed

text \<open>
  Both stores hold a record; the one of local storage is rehydrated.
\<close>

theorem rehydrate_valid_record_witness:
  "read_chatSessionData (stored (Some record_text) (Some other_text)) = Some record_text \<and>
   json_parse sample_env record_text = Some record_value \<and>
   valid_chatDetails (prop_of record_value ''chatDetails'') \<and>
   logger (stored (Some record_text) (Some other_text)) \<and>
   status (snd (checkAndRehydrateChat sample_env (stored (Some record_text) (Some other_text))))
     = Initiated \<and>
   language (snd (checkAndRehydrateChat sample_env (stored (Some record_text) (Some other_text))))
     = JStr ''fr_FR'' \<and>
   composerConfig (snd (checkAndRehydrateChat sample_env (stored (Some record_text) (Some other_text))))
     = make_composerConfig (JBool True) False"
proof -
  have h5: "openResult sample_env (new_ChatSession (prop_of record_value ''chatDetails'')
      (prop_of record_value ''displayName'') (prop_of record_value ''region'')
      (prop_of record_value ''stage'') (prop_of record_value ''customizationParams'')) = None"
    by (simp add: sample_env_def)
  from rehydrate_valid_record [OF read_record_text(1) parse_samples(1) valid_record_value
         logger_stored h5, of "Some other_text"]
  show ?thesis using parse_samples(1) valid_record_value
    by (simp add: record_value_def)
qed

text \<open>
  C2 as stated fails: the record below contains both \<^verbatim>\<open>ContactId\<close> and
  \<^verbatim>\<open>ParticipantId\<close>, every open call would resolve, and the call ends with the status
  NotInitiated without an open call, because the \<^verbatim>\<open>ContactId\<close> is the empty string.
\<close>

theorem rehydrate_contains_ids_counterexample:
  "json_parse sample_env empty_id_text = Some empty_id_value \<and>
   prop_of (prop_of (prop_of empty_id_value ''chatDetails'') ''startChatResult'') ''ContactId''
     = JStr [] \<and>
   prop_of (prop_of (prop_of empty_id_value ''chatDetails'') ''startChatResult'') ''ParticipantId''
     = JStr ''p1'' \<and>
   status (snd (checkAndRehydrateChat sample_env (stored (Some empty_id_text) None))) = NotInitiated \<and>
   trace (snd (checkAndRehydrateChat sample_env (stored (Some empty_id_text) None)))
     = [StatusSet NotInitiated]"
  using checkAndRehydrateChat_fell_through [OF read_record_text(2) parse_samples(2)
          invalid_empty_id_value(2) invalid_empty_id_value(1), of None]
  by (simp add: parse_samples) (simp add: empty_id_value_def start_result_def)

text \<open>
  C3, as amended. When the text that \<^verbatim>\<open>checkAndRehydrateChat\<close> reads is not valid JSON
  and the component has a logger, the call logs the error, removes the key from both
  stores, sets the status to NotInitiated and completes without an exception.
\<close>

theorem rehydrate_malformed_text:
  assumes "read_chatSessionData s = Some t"
    and "json_parse E t = None"
    and "logger s"
  shows "fst (checkAndRehydrateChat E s) = Completed \<and>
         status (snd (checkAndRehydrateChat E s)) = NotInitiated \<and>
         localStorage (snd (checkAndRehydrateChat E s)) chatSessionData = None \<and>
         sessionStorage (snd (checkAndRehydrateChat E s)) chatSessionData = None \<and>
         chatSession (snd (checkAndRehydrateChat E s)) = chatSession s \<and>
         trace (snd (checkAndRehydrateChat E s)) =
           trace s @ [LoggerError, ItemRemoved LocalStore chatSessionData,
                      ItemRemoved SessionStore chatSessionData, StatusSet NotInitiated]"
proof -
  have "rehydrate_try E t s = (Inl SyntaxError, s)"
    using assms(2) by (simp add: rehydrate_try_def)
  from checkAndRehydrateChat_caught [OF assms(1) this assms(3)] show ?thesis by simp
qed

theorem rehydrate_malformed_text_witness:
  "read_chatSessionData (stored (Some ''{not json'') None) = Some ''{not json'' \<and>
   json_parse sample_env ''{not json'' = None \<and>
   logger (stored (Some ''{not json'') None) \<and>
   fst (checkAndRehydrateChat sample_env (stored (Some ''{not json'') None)) = Completed \<and>
   status (snd (checkAndRehydrateChat sample_env (stored (Some ''{not json'') None)))
     = NotInitiated \<and>
   localStorage (snd (checkAndRehydrateChat sample_env (stored (Some ''{not json'') None)))
     chatSessionData = None"
proof -
  have r: "read_chatSessionData (stored (Some ''{not json'') None) = Some ''{not json''"
    by simp
  from rehydrate_malformed_text [OF r parse_samples(4) logger_stored]
  show ?thesis using r parse_samples(4) by simp
qed

text \<open>
  C3 as stated fails: the empty text is not valid JSON, and when local storage holds it
  under the key the call does not remove it.
\<close>

theorem rehydrate_empty_text_counterexample:
  "json_parse sample_env [] = None \<and>
   localStorage (stored (Some []) None) chatSessionData = Some [] \<and>
   localStorage (snd (checkAndRehydrateChat sample_env (stored (Some []) None))) chatSessionData
     = Some []"
  using checkAndRehydrateChat_nothing_read [OF read_stored_empty, of sample_env]
  by (simp add: parse_samples)

text \<open>
  C4. \<^verbatim>\<open>saveChatSession\<close> first removes the key from both stores. When the persistence
  mode names local storage (or session storage) and \<^verbatim>\<open>chatDetails\<close> is a value, as the
  result of the Session Initiator is when the call is reached, it then writes the text of
  the fresh record to that store only. When the mode names neither store, and so when it is
  absent, no item is set and both stores stay without the key. In every case at most one
  store holds the key afterwards, and \<^verbatim>\<open>checkAndRehydrateChat\<close>,
  \<^verbatim>\<open>submitChatInitiation\<close> and \<^verbatim>\<open>resetState\<close> keep it so.
\<close>

theorem saveChatSession_single_store:
  "(let r = saveChatSession E input chatDetails cp s;
        name = property_key E (field input ''chatPersistence'')
    in (\<exists>rest. trace (snd r) =
          trace s @ ItemRemoved LocalStore chatSessionData
                  # ItemRemoved SessionStore chatSessionData # rest) \<and>
       (name = ''localStorage'' \<and> \<not> nullish chatDetails \<longrightarrow>
          (\<exists>att. attachmentsEnabled E input chatDetails = Inr att \<and>
             fst r = Completed \<and>
             localStorage (snd r) =
               (localStorage s)(chatSessionData \<mapsto>
                  json_stringify E (session_record E input chatDetails cp att)) \<and>
             sessionStorage (snd r) = (sessionStorage s)(chatSessionData := None) \<and>
             trace (snd r) =
               trace s @ [ItemRemoved LocalStore chatSessionData,
                          ItemRemoved SessionStore chatSessionData,
                          ItemSet LocalStore chatSessionData
                            (json_stringify E (session_record E input chatDetails cp att))])) \<and>
       (name = ''sessionStorage'' \<and> \<not> nullish chatDetails \<longrightarrow>
          (\<exists>att. attachmentsEnabled E input chatDetails = Inr att \<and>
             fst r = Completed \<and>
             sessionStorage (snd r) =
               (sessionStorage s)(chatSessionData \<mapsto>
                  json_stringify E (session_record E input chatDetails cp att)) \<and>
             localStorage (snd r) = (localStorage s)(chatSessionData := None) \<and>
             trace (snd r) =
               trace s @ [ItemRemoved LocalStore chatSessionData,
                          ItemRemoved SessionStore chatSessionData,
                          ItemSet SessionStore chatSessionData
                            (json_stringify E (session_record E input chatDetails cp att))])) \<and>
       (name \<noteq> ''localStorage'' \<and> name \<noteq> ''sessionStorage'' \<longrightarrow>
          localStorage (snd r) = (localStorage s)(chatSessionData := None) \<and>
          sessionStorage (snd r) = (sessionStorage s)(chatSessionData := None) \<and>
          (\<forall>st k v. ItemSet st k v \<notin> set (trace (snd r)) \<or> ItemSet st k v \<in> set (trace s))) \<and>
       (fmlookup input ''chatPersistence'' = None \<longrightarrow>
          name \<noteq> ''localStorage'' \<and> name \<noteq> ''sessionStorage'') \<and>
       (localStorage (snd r) chatSessionData = None \<or>
        sessionStorage (snd r) chatSessionData = None)) \<and>
   (localStorage s chatSessionData = None \<or> sessionStorage s chatSessionData = None \<longrightarrow>
      (localStorage (snd (checkAndRehydrateChat E s)) chatSessionData = None \<or>
       sessionStorage (snd (checkAndRehydrateChat E s)) chatSessionData = None) \<and>
      (localStorage (snd (submitChatInitiation E input success failure s)) chatSessionData = None \<or>
       sessionStorage (snd (submitChatInitiation E input success failure s)) chatSessionData = None)) \<and>
   localStorage (resetState s) chatSessionData = None"
proof -
  let ?r = "saveChatSession E input chatDetails cp s"
  let ?name = "property_key E (field input ''chatPersistence'')"
  have prefix: "\<exists>rest. trace (snd ?r) =
          trace s @ ItemRemoved LocalStore chatSessionData
                  # ItemRemoved SessionStore chatSessionData # rest"
    by (rule save_trace_prefix)
  have local: "?name = ''localStorage'' \<and> \<not> nullish chatDetails \<longrightarrow>
          (\<exists>att. attachmentsEnabled E input chatDetails = Inr att \<and>
             fst ?r = Completed \<and>
             localStorage (snd ?r) =
               (localStorage s)(chatSessionData \<mapsto>
                  json_stringify E (session_record E input chatDetails cp att)) \<and>
             sessionStorage (snd ?r) = (sessionStorage s)(chatSessionData := None) \<and>
             trace (snd ?r) =
               trace s @ [ItemRemoved LocalStore chatSessionData,
                          ItemRemoved SessionStore chatSessionData,
                          ItemSet LocalStore chatSessionData
                            (json_stringify E (session_record E input chatDetails cp att))])"
  proof
    assume a: "?name = ''localStorage'' \<and> \<not> nullish chatDetails"
    then obtain att where att: "attachmentsEnabled E input chatDetails = Inr att"
      using attachmentsEnabled_defined by blast
    have w: "window_lookup E (field input ''chatPersistence'') = WLocalStorage"
      using a by (simp add: window_lookup_cases)
    show "\<exists>att. attachmentsEnabled E input chatDetails = Inr att \<and>
             fst ?r = Completed \<and>
             localStorage (snd ?r) =
               (localStorage s)(chatSessionData \<mapsto>
                  json_stringify E (session_record E input chatDetails cp att)) \<and>
             sessionStorage (snd ?r) = (sessionStorage s)(chatSessionData := None) \<and>
             trace (snd ?r) =
               trace s @ [ItemRemoved LocalStore chatSessionData,
                          ItemRemoved SessionStore chatSessionData,
                          ItemSet LocalStore chatSessionData
                            (json_stringify E (session_record E input chatDetails cp att))]"
      using att by (simp add: save_local [OF w att])
  qed
  have session: "?name = ''sessionStorage'' \<and> \<not> nullish chatDetails \<longrightarrow>
          (\<exists>att. attachmentsEnabled E input chatDetails = Inr att \<and>
             fst ?r = Completed \<and>
             sessionStorage (snd ?r) =
               (sessionStorage s)(chatSessionData \<mapsto>
                  json_stringify E (session_record E input chatDetails cp att)) \<and>
             localStorage (snd ?r) = (localStorage s)(chatSessionData := None) \<and>
             trace (snd ?r) =
               trace s @ [ItemRemoved LocalStore chatSessionData,
                          ItemRemoved SessionStore chatSessionData,
                          ItemSet SessionStore chatSessionData
                            (json_stringify E (session_record E input chatDetails cp att))])"
  proof
    assume a: "?name = ''sessionStorage'' \<and> \<not> nullish chatDetails"
    then obtain att where att: "attachmentsEnabled E input chatDetails = Inr att"
      using attachmentsEnabled_defined by blast
    have w: "window_lookup E (field input ''chatPersistence'') = WSessionStorage"
      using a by (simp add: window_lookup_cases)
    show "\<exists>att. attachmentsEnabled E input chatDetails = Inr att \<and>
             fst ?r = Completed \<and>
             sessionStorage (snd ?r) =
               (sessionStorage s)(chatSessionData \<mapsto>
                  json_stringify E (session_record E input chatDetails cp att)) \<and>
             localStorage (snd ?r) = (localStorage s)(chatSessionData := None) \<and>
             trace (snd ?r) =
               trace s @ [ItemRemoved LocalStore chatSessionData,
                          ItemRemoved SessionStore chatSessionData,
                          ItemSet SessionStore chatSessionData
                            (json_stringify E (session_record E input chatDetails cp att))]"
      using att by (simp add: save_session [OF w att])
  qed
  have other: "?name \<noteq> ''localStorage'' \<and> ?name \<noteq> ''sessionStorage'' \<longrightarrow>
          localStorage (snd ?r) = (localStorage s)(chatSessionData := None) \<and>
          sessionStorage (snd ?r) = (sessionStorage s)(chatSessionData := None) \<and>
          (\<forall>st k v. ItemSet st k v \<notin> set (trace (snd ?r)) \<or> ItemSet st k v \<in> set (trace s))"
  proof
    assume a: "?name \<noteq> ''localStorage'' \<and> ?name \<noteq> ''sessionStorage''"
    then have "window_lookup E (field input ''chatPersistence'') = WFalsy \<or>
               window_lookup E (field input ''chatPersistence'') = WOther"
      by (simp add: window_lookup_def Let_def)
    then show "localStorage (snd ?r) = (localStorage s)(chatSessionData := None) \<and>
          sessionStorage (snd ?r) = (sessionStorage s)(chatSessionData := None) \<and>
          (\<forall>st k v. ItemSet st k v \<notin> set (trace (snd ?r)) \<or> ItemSet st k v \<in> set (trace s))"
      by (auto simp: save_falsy save_other)
  qed
  have absent: "fmlookup input ''chatPersistence'' = None \<longrightarrow>
          ?name \<noteq> ''localStorage'' \<and> ?name \<noteq> ''sessionStorage''"
    by (simp add: field_absent)
  have one: "localStorage (snd ?r) chatSessionData = None \<or>
        sessionStorage (snd ?r) chatSessionData = None"
    by (rule save_at_most_one)
  have kept: "localStorage s chatSessionData = None \<or> sessionStorage s chatSessionData = None \<longrightarrow>
      (localStorage (snd (checkAndRehydrateChat E s)) chatSessionData = None \<or>
       sessionStorage (snd (checkAndRehydrateChat E s)) chatSessionData = None) \<and>
      (localStorage (snd (submitChatInitiation E input success failure s)) chatSessionData = None \<or>
       sessionStorage (snd (submitChatInitiation E input success failure s)) chatSessionData = None)"
  proof (intro impI conjI)
    assume a: "localStorage s chatSessionData = None \<or> sessionStorage s chatSessionData = None"
    show "localStorage (snd (checkAndRehydrateChat E s)) chatSessionData = None \<or>
       sessionStorage (snd (checkAndRehydrateChat E s)) chatSessionData = None"
      by (rule rehydrate_at_most_one [OF a])
    show "localStorage (snd (submitChatInitiation E input success failure s)) chatSessionData = None \<or>
       sessionStorage (snd (submitChatInitiation E input success failure s)) chatSessionData = None"
      by (rule submit_at_most_one [OF a])
  qed
  have reset: "localStorage (resetState s) chatSessionData = None"
    by (simp add: resetState_def Let_def)
  from prefix local session other absent one kept reset show ?thesis
    unfolding Let_def by blast
qed

theorem saveChatSession_single_store_witness:
  "property_key sample_env (field host_config ''chatPersistence'') = ''localStorage'' \<and>
   \<not> nullish (start_result ''c1'' ''p1'') \<and>
   localStorage (snd (saveChatSession sample_env host_config (start_result ''c1'' ''p1'')
      (make_customizationParams host_config) (stored (Some other_text) (Some other_text))))
     chatSessionData = Some saved_text \<and>
   sessionStorage (snd (saveChatSession sample_env host_config (start_result ''c1'' ''p1'')
      (make_customizationParams host_config) (stored (Some other_text) (Some other_text))))
     chatSessionData = None \<and>
   fmlookup host_config_no_persistence ''chatPersistence'' = None \<and>
   localStorage (snd (saveChatSession sample_env host_config_no_persistence
      (start_result ''c1'' ''p1'') (make_customizationParams host_config_no_persistence)
      (stored (Some other_text) (Some other_text)))) chatSessionData = None \<and>
   sessionStorage (snd (saveChatSession sample_env host_config_no_persistence
      (start_result ''c1'' ''p1'') (make_customizationParams host_config_no_persistence)
      (stored (Some other_text) (Some other_text)))) chatSessionData = None"
proof -
  have n: "\<not> nullish (start_result ''c1'' ''p1'')" by (simp add: start_result_def)
  show ?thesis
    using saveChatSession_single_store [of sample_env host_config "start_result ''c1'' ''p1''"
            "make_customizationParams host_config" "stored (Some other_text) (Some other_text)"]
          saveChatSession_single_store [of sample_env host_config_no_persistence
            "start_result ''c1'' ''p1''" "make_customizationParams host_config_no_persistence"
            "stored (Some other_text) (Some other_text)"]
          n
    by (simp add: Let_def host_config_fields attachments_sample stringify_sample)
qed

text \<open>
  C5. After \<^verbatim>\<open>resetState\<close>, whatever the state before: neither store has a value
  under the session-record key, the status is NotInitiated and the chat session
  reference is null.
\<close>

theorem resetState_clears:
  "localStorage (resetState s) chatSessionData = None \<and>
   sessionStorage (resetState s) chatSessionData = None \<and>
   status (resetState s) = NotInitiated \<and>
   chatSession (resetState s) = None"
  by (simp add: resetState_def Let_def)

text \<open>
  C6, as amended. When the open call of \<^verbatim>\<open>checkAndRehydrateChat\<close> rejects, on a
  component with a logger, the rejection is caught by the handler of the parse failure:
  the call logs the error, removes the key from both stores, sets the status to
  NotInitiated (not InitiateFailed), keeps the chat session reference as it was, and
  completes.
\<close>

theorem rehydrate_open_rejected:
  assumes "read_chatSessionData s = Some t"
    and "json_parse E t = Some R"
    and "valid_chatDetails (prop_of R ''chatDetails'')"
    and "logger s"
    and "openResult E (new_ChatSession (prop_of R ''chatDetails'') (prop_of R ''displayName'')
            (prop_of R ''region'') (prop_of R ''stage'') (prop_of R ''customizationParams'')) = Some e"
  shows "fst (checkAndRehydrateChat E s) = Completed \<and>
         status (snd (checkAndRehydrateChat E s)) = NotInitiated \<and>
         localStorage (snd (checkAndRehydrateChat E s)) chatSessionData = None \<and>
         sessionStorage (snd (checkAndRehydrateChat E s)) chatSessionData = None \<and>
         chatSession (snd (checkAndRehydrateChat E s)) = chatSession s \<and>
         trace (snd (checkAndRehydrateChat E s)) =
           trace s @ [LoggerInfo, LoggerInfo,
             OpenCalled (new_ChatSession (prop_of R ''chatDetails'') (prop_of R ''displayName'')
                  (prop_of R ''region'') (prop_of R ''stage'') (prop_of R ''customizationParams'')),
             LoggerError, ItemRemoved LocalStore chatSessionData,
             ItemRemoved SessionStore chatSessionData, StatusSet NotInitiated]"
proof -
  from checkAndRehydrateChat_caught [OF assms(1) rehydrate_try_open_rejected [OF assms(2-5)]]
    assms(4)
  show ?thesis by simp
qed

theorem rehydrate_open_rejected_witness:
  "read_chatSessionData (stored (Some record_text) None) = Some record_text \<and>
   json_parse open_fails record_text = Some record_value \<and>
   valid_chatDetails (prop_of record_value ''chatDetails'') \<and>
   logger (stored (Some record_text) None) \<and>
   openResult open_fails (new_ChatSession (prop_of record_value ''chatDetails'')
      (prop_of record_value ''displayName'') (prop_of record_value ''region'')
      (prop_of record_value ''stage'') (prop_of record_value ''customizationParams''))
     = Some (Reason (JStr ''WebSocketError'')) \<and>
   status (snd (checkAndRehydrateChat open_fails (stored (Some record_text) None))) = NotInitiated \<and>
   localStorage (snd (checkAndRehydrateChat open_fails (stored (Some record_text) None)))
     chatSessionData = None"
proof -
  have p: "json_parse open_fails record_text = Some record_value"
    using parse_samples(1) by (simp add: open_fails_fields sample_env_def)
  from rehydrate_open_rejected [OF read_record_text(1) p valid_record_value logger_stored
         open_fails_fields(2), of None]
  show ?thesis using p valid_record_value by (simp add: open_fails_fields)
qed

text \<open>
  C6 as stated fails: the rejection of the open call is handled. With the record in
  session storage and an open call that rejects, the call completes, and it has removed
  the record and set the status.
\<close>

theorem rehydrate_open_unhandled_counterexample:
  "openResult open_fails (new_ChatSession (prop_of record_value ''chatDetails'')
      (prop_of record_value ''displayName'') (prop_of record_value ''region'')
      (prop_of record_value ''stage'') (prop_of record_value ''customizationParams''))
     = Some (Reason (JStr ''WebSocketError'')) \<and>
   sessionStorage (stored None (Some record_text)) chatSessionData = Some record_text \<and>
   fst (checkAndRehydrateChat open_fails (stored None (Some record_text))) = Completed \<and>
   status (snd (checkAndRehydrateChat open_fails (stored None (Some record_text)))) = NotInitiated \<and>
   sessionStorage (snd (checkAndRehydrateChat open_fails (stored None (Some record_text))))
     chatSessionData = None"
proof -
  have p: "json_parse open_fails record_text = Some record_value"
    using parse_samples(1) by (simp add: open_fails_fields sample_env_def)
  have r: "read_chatSessionData (stored None (Some record_text)) = Some record_text"
    by (rule read_session_fallback) (simp_all add: record_text_def)
  from checkAndRehydrateChat_caught [OF r
         rehydrate_try_open_rejected [OF p valid_record_value logger_stored open_fails_fields(2)]]
  show ?thesis by (simp add: open_fails_fields)
qed

text \<open>
  C7. The claim holds of \<^verbatim>\<open>checkAndRehydrateChat\<close>, which catches the error of
  \<^verbatim>\<open>JSON.parse\<close>, and fails of \<^verbatim>\<open>ChatInterface.initiateChat\<close>, which parses the
  stored text outside any \<^verbatim>\<open>try\<close>: with a configuration that names local storage and
  a stored text that is not valid JSON, the SyntaxError leaves the call, and no event is
  triggered.
\<close>

theorem ChatInterface_parse_error_escapes:
  "json_parse sample_env ''{not json'' = None \<and>
   field host_config ''chatPersistence'' = JStr ''localStorage'' \<and>
   ChatInterface_initiateChat sample_env host_config (Some 10) (Some 20)
       (stored (Some ''{not json'') None)
     = (Raised SyntaxError, stored (Some ''{not json'') None)"
proof -
  have w: "window_lookup sample_env (field host_config ''chatPersistence'') = WLocalStorage"
    by (simp add: host_config_fields window_samples)
  have l: "localStorage (stored (Some ''{not json'') None) chatSessionData = Some ''{not json''"
    by simp
  from ChatInterface_parse_error [OF w l parse_samples(4)] show ?thesis
    by (simp add: parse_samples host_config_fields)
qed

text \<open>
  C8. The claim fails on the code: for the event that \<^verbatim>\<open>postMessage({initChat: config})\<close>
  delivers, the configuration is under \<^verbatim>\<open>event.data\<close>, the listener tests
  \<^verbatim>\<open>initChat\<close> on the event itself, finds it undefined and returns:
  \<^verbatim>\<open>ChatInterface.initiateChat\<close> is not invoked, nothing is merged and no event is
  triggered.
\<close>

theorem message_listener_ignores_postMessage:
  "event_data (postMessage_event init_message) = init_message \<and>
   prop_of init_message ''initChat'' = JObj host_config \<and>
   field (event_own (postMessage_event init_message)) ''initChat'' = JUndefined \<and>
   message_listener sample_env (postMessage_event init_message) (constructed True)
     = (Completed, constructed True) \<and>
   trace (snd (message_listener sample_env (postMessage_event init_message) (constructed True)))
     = []"
  by (simp add: message_listener_postMessage)
     (simp add: postMessage_event_def init_message_def field_def)

text \<open>
  C9, as amended. Calling \<^verbatim>\<open>saveChatSession\<close> twice with the same arguments leaves the
  two stores as one call leaves them, with the same outcome. When the persistence mode
  names local storage or session storage (and \<^verbatim>\<open>chatDetails\<close> is a value), exactly that
  store holds a record and the other holds none; when the mode names neither, and so when
  it is absent, neither store holds a record.
\<close>

theorem saveChatSession_idempotent:
  "(let r1 = saveChatSession E input chatDetails cp s;
        r2 = saveChatSession E input chatDetails cp (snd r1);
        name = property_key E (field input ''chatPersistence'')
    in localStorage (snd r2) = localStorage (snd r1) \<and>
       sessionStorage (snd r2) = sessionStorage (snd r1) \<and>
       fst r2 = fst r1 \<and>
       (name = ''localStorage'' \<and> \<not> nullish chatDetails \<longrightarrow>
          localStorage (snd r2) chatSessionData \<noteq> None \<and>
          sessionStorage (snd r2) chatSessionData = None) \<and>
       (name = ''sessionStorage'' \<and> \<not> nullish chatDetails \<longrightarrow>
          sessionStorage (snd r2) chatSessionData \<noteq> None \<and>
          localStorage (snd r2) chatSessionData = None) \<and>
       (name \<noteq> ''localStorage'' \<and> name \<noteq> ''sessionStorage'' \<longrightarrow>
          localStorage (snd r2) chatSessionData = None \<and>
          sessionStorage (snd r2) chatSessionData = None))"
proof -
  let ?r1 = "saveChatSession E input chatDetails cp s"
  let ?r2 = "saveChatSession E input chatDetails cp (snd ?r1)"
  let ?name = "property_key E (field input ''chatPersistence'')"
  have idem: "localStorage (snd ?r2) = localStorage (snd ?r1) \<and>
       sessionStorage (snd ?r2) = sessionStorage (snd ?r1) \<and> fst ?r2 = fst ?r1"
    by (rule save_idem_stores)
  have local: "?name = ''localStorage'' \<and> \<not> nullish chatDetails \<longrightarrow>
          localStorage (snd ?r2) chatSessionData \<noteq> None \<and>
          sessionStorage (snd ?r2) chatSessionData = None"
  proof
    assume a: "?name = ''localStorage'' \<and> \<not> nullish chatDetails"
    then obtain att where att: "attachmentsEnabled E input chatDetails = Inr att"
      using attachmentsEnabled_defined by blast
    have w: "window_lookup E (field input ''chatPersistence'') = WLocalStorage"
      using a by (simp add: window_lookup_cases)
    show "localStorage (snd ?r2) chatSessionData \<noteq> None \<and>
          sessionStorage (snd ?r2) chatSessionData = None"
      by (simp add: save_local [OF w att])
  qed
  have session: "?name = ''sessionStorage'' \<and> \<not> nullish chatDetails \<longrightarrow>
          sessionStorage (snd ?r2) chatSessionData \<noteq> None \<and>
          localStorage (snd ?r2) chatSessionData = None"
  proof
    assume a: "?name = ''sessionStorage'' \<and> \<not> nullish chatDetails"
    then obtain att where att: "attachmentsEnabled E input chatDetails = Inr att"
      using attachmentsEnabled_defined by blast
    have w: "window_lookup E (field input ''chatPersistence'') = WSessionStorage"
      using a by (simp add: window_lookup_cases)
    show "sessionStorage (snd ?r2) chatSessionData \<noteq> None \<and>
          localStorage (snd ?r2) chatSessionData = None"
      by (simp add: save_session [OF w att])
  qed
  have other: "?name \<noteq> ''localStorage'' \<and> ?name \<noteq> ''sessionStorage'' \<longrightarrow>
          localStorage (snd ?r2) chatSessionData = None \<and>
          sessionStorage (snd ?r2) chatSessionData = None"
  proof
    assume a: "?name \<noteq> ''localStorage'' \<and> ?name \<noteq> ''sessionStorage''"
    then have "window_lookup E (field input ''chatPersistence'') = WFalsy \<or>
               window_lookup E (field input ''chatPersistence'') = WOther"
      by (simp add: window_lookup_def Let_def)
    then show "localStorage (snd ?r2) chatSessionData = None \<and>
          sessionStorage (snd ?r2) chatSessionData = None"
      by (auto simp: save_falsy save_other)
  qed
  from idem local session other show ?thesis
    unfolding Let_def by blast
qed

theorem saveChatSession_idempotent_witness:
  "property_key sample_env (field host_config ''chatPersistence'') = ''localStorage'' \<and>
   \<not> nullish (start_result ''c1'' ''p1'') \<and>
   localStorage (snd (saveChatSession sample_env host_config (start_result ''c1'' ''p1'')
      (make_customizationParams host_config)
      (snd (saveChatSession sample_env host_config (start_result ''c1'' ''p1'')
         (make_customizationParams host_config) (stored None (Some other_text))))))
     chatSessionData = Some saved_text \<and>
   sessionStorage (snd (saveChatSession sample_env host_config (start_result ''c1'' ''p1'')
      (make_customizationParams host_config)
      (snd (saveChatSession sample_env host_config (start_result ''c1'' ''p1'')
         (make_customizationParams host_config) (stored None (Some other_text))))))
     chatSessionData = None"
proof -
  have n: "\<not> nullish (start_result ''c1'' ''p1'')" by (simp add: start_result_def)
  have w: "window_lookup sample_env (field host_config ''chatPersistence'') = WLocalStorage"
    by (simp add: host_config_fields window_samples)
  show ?thesis
    using saveChatSession_idempotent [of sample_env host_config "start_result ''c1'' ''p1''"
            "make_customizationParams host_config" "stored None (Some other_text)"] n
    by (simp add: Let_def host_config_fields save_local [OF w attachments_sample] stringify_sample)
qed

text \<open>
  C9 as stated fails: for the configuration without a persistence mode, two calls leave
  no record in either store, not exactly one.
\<close>

theorem saveChatSession_no_record_counterexample:
  "fmlookup host_config_no_persistence ''chatPersistence'' = None \<and>
   localStorage (snd (saveChatSession sample_env host_config_no_persistence
      (start_result ''c1'' ''p1'') (make_customizationParams host_config_no_persistence)
      (snd (saveChatSession sample_env host_config_no_persistence
         (start_result ''c1'' ''p1'') (make_customizationParams host_config_no_persistence)
         (stored (Some other_text) None))))) chatSessionData = None \<and>
   sessionStorage (snd (saveChatSession sample_env host_config_no_persistence
      (start_result ''c1'' ''p1'') (make_customizationParams host_config_no_persistence)
      (snd (saveChatSession sample_env host_config_no_persistence
         (start_result ''c1'' ''p1'') (make_customizationParams host_config_no_persistence)
         (stored (Some other_text) None))))) chatSessionData = None"
proof -
  have w: "window_lookup sample_env (field host_config_no_persistence ''chatPersistence'') = WFalsy"
    by (simp add: host_config_fields window_samples)
  show ?thesis by (simp add: save_falsy [OF w] host_config_fields)
qed

text \<open>
  C10, as amended. When the text that \<^verbatim>\<open>checkAndRehydrateChat\<close> reads parses to a value
  other than \<^verbatim>\<open>null\<close> that lacks a truthy \<^verbatim>\<open>chatDetails\<close>, \<^verbatim>\<open>startChatResult\<close>,
  \<^verbatim>\<open>ContactId\<close> or \<^verbatim>\<open>ParticipantId\<close>, the call sets the status to NotInitiated and
  does nothing else: no open call, and both stores as they were.
\<close>

theorem rehydrate_invalid_structure:
  assumes "read_chatSessionData s = Some t"
    and "json_parse E t = Some R"
    and "\<not> nullish R"
    and "\<not> valid_chatDetails (prop_of R ''chatDetails'')"
  shows "checkAndRehydrateChat E s = (Completed, setStatus NotInitiated s) \<and>
         status (snd (checkAndRehydrateChat E s)) = NotInitiated \<and>
         localStorage (snd (checkAndRehydrateChat E s)) = localStorage s \<and>
         sessionStorage (snd (checkAndRehydrateChat E s)) = sessionStorage s \<and>
         trace (snd (checkAndRehydrateChat E s)) = trace s @ [StatusSet NotInitiated]"
  using checkAndRehydrateChat_fell_through [OF assms] by simp

theorem rehydrate_invalid_structure_witness:
  "read_chatSessionData (stored (Some empty_id_text) (Some empty_id_text)) = Some empty_id_text \<and>
   json_parse sample_env empty_id_text = Some empty_id_value \<and>
   \<not> nullish empty_id_value \<and>
   \<not> valid_chatDetails (prop_of empty_id_value ''chatDetails'') \<and>
   status (snd (checkAndRehydrateChat sample_env
      (stored (Some empty_id_text) (Some empty_id_text)))) = NotInitiated \<and>
   localStorage (snd (checkAndRehydrateChat sample_env
      (stored (Some empty_id_text) (Some empty_id_text)))) chatSessionData = Some empty_id_text \<and>
   sessionStorage (snd (checkAndRehydrateChat sample_env
      (stored (Some empty_id_text) (Some empty_id_text)))) chatSessionData = Some empty_id_text"
  using rehydrate_invalid_structure [OF read_record_text(2) parse_samples(2)
          invalid_empty_id_value(2) invalid_empty_id_value(1), of "Some empty_id_text"]
        parse_samples(2) invalid_empty_id_value
  by simp

text \<open>
  C10 as stated fails: the text \<^verbatim>\<open>null\<close> is valid JSON without \<^verbatim>\<open>chatDetails\<close>, and
  the call removes it from the stores, since reading \<^verbatim>\<open>chatDetails\<close> of \<^verbatim>\<open>null\<close>
  throws inside the \<^verbatim>\<open>try\<close> block.
\<close>

theorem rehydrate_null_counterexample:
  "json_parse sample_env ''null'' = Some JNull \<and>
   localStorage (stored (Some ''null'') (Some ''null'')) chatSessionData = Some ''null'' \<and>
   localStorage (snd (checkAndRehydrateChat sample_env (stored (Some ''null'') (Some ''null''))))
     chatSessionData = None \<and>
   sessionStorage (snd (checkAndRehydrateChat sample_env (stored (Some ''null'') (Some ''null''))))
     chatSessionData = None"
proof -
  have r: "read_chatSessionData (stored (Some ''null'') (Some ''null'')) = Some ''null''"
    by simp
  have "rehydrate_try sample_env ''null'' (stored (Some ''null'') (Some ''null'')) =
          (Inl TypeError, stored (Some ''null'') (Some ''null''))"
    by (simp add: rehydrate_try_def parse_samples get_prop_def)
  from checkAndRehydrateChat_caught [OF r this logger_stored]
  show ?thesis by (simp add: parse_samples)
qed

end
